theory Spec2Isabelle
  imports Complex_Main "HOL-Library.Word" "HOL-Library.Char_ord" "HOL-Library.List_Lexorder"
    "HOL-Library.Monad_Syntax"
begin

section \<open>The animation-script engine of ckb (animscript.cpp)\<close>

text \<open>
  The theory embeds \<^verbatim>\<open>AnimScript\<close>: the discovery of animation executables
  (\<^verbatim>\<open>load\<close>, \<^verbatim>\<open>scan\<close>, \<^verbatim>\<open>list\<close>) and the protocol state
  machine of one running animation (\<^verbatim>\<open>init\<close>, \<^verbatim>\<open>start\<close>,
  \<^verbatim>\<open>frame\<close>, \<^verbatim>\<open>nextFrame\<close>, \<^verbatim>\<open>retrigger\<close>,
  \<^verbatim>\<open>readProcess\<close>, ...).

  Conventions of the embedding:
  \<^item> a \<^verbatim>\<open>QString\<close> is a \<open>string\<close>; only the ASCII behaviour of the Qt string
    functions is modelled;
  \<^item> a C++ \<^verbatim>\<open>double\<close> is a \<open>real\<close>: rounding of the floating-point operations is
    not modelled;
  \<^item> a \<^verbatim>\<open>quint64\<close> timestamp is a \<open>64 word\<close>, so subtraction wraps as in C++;
  \<^item> the child process is the list of commands written to its standard input so far; a
    null \<^verbatim>\<open>process\<close> pointer is \<open>None\<close>, and dereferencing it (a crash in C++)
    makes the operation return \<open>None\<close>.
\<close>

subsection \<open>Qt string functions\<close>

text \<open>\<^verbatim>\<open>QChar::isSpace\<close> on ASCII: tab, line feed, vertical tab, form feed, carriage
  return and space.\<close>

definition isSpace :: "char \<Rightarrow> bool" where
  "isSpace c = (c \<in> set [CHR 0x09, CHR 0x0A, CHR 0x0B, CHR 0x0C, CHR 0x0D, CHR 0x20])"

text \<open>\<^verbatim>\<open>QString::trimmed\<close>: whitespace removed from both ends.\<close>

definition trimmed :: "string \<Rightarrow> string" where
  "trimmed s = rev (dropWhile isSpace (rev (dropWhile isSpace s)))"

text \<open>\<^verbatim>\<open>QString::split(" ")\<close>: the fields between single spaces, empty fields kept, so
  the result is never empty.\<close>

primrec split_space :: "string \<Rightarrow> string list" where
  "split_space [] = [[]]"
| "split_space (c # cs) =
     (if c = CHR '' '' then [] # split_space cs
      else (case split_space cs of [] \<Rightarrow> [[c]] | w # ws \<Rightarrow> (c # w) # ws))"

definition lower_table :: "(char \<times> char) list" where
  "lower_table = zip ''ABCDEFGHIJKLMNOPQRSTUVWXYZ'' ''abcdefghijklmnopqrstuvwxyz''"

definition upper_table :: "(char \<times> char) list" where
  "upper_table = zip ''abcdefghijklmnopqrstuvwxyz'' ''ABCDEFGHIJKLMNOPQRSTUVWXYZ''"

definition toLower :: "string \<Rightarrow> string" where
  "toLower s = map (\<lambda>c. case map_of lower_table c of None \<Rightarrow> c | Some l \<Rightarrow> l) s"

definition toUpper :: "string \<Rightarrow> string" where
  "toUpper s = map (\<lambda>c. case map_of upper_table c of None \<Rightarrow> c | Some u \<Rightarrow> u) s"

definition hex_table :: "(char \<times> nat) list" where
  "hex_table = zip ''0123456789abcdefABCDEF''
     [0, 1, 2, 3, 4, 5, 6, 7, 8, 9, 10, 11, 12, 13, 14, 15, 10, 11, 12, 13, 14, 15]"

definition hexDigit :: "char \<Rightarrow> nat option" where
  "hexDigit c = map_of hex_table c"

text \<open>\<^verbatim>\<open>QUrl::fromPercentEncoding\<close>: every \<^verbatim>\<open>%XY\<close> with two hexadecimal digits
  becomes the byte it names; everything else is kept.\<close>

fun fromPercentEncoding :: "string \<Rightarrow> string" where
  "fromPercentEncoding (c # a # b # cs) =
     (if c = CHR ''%'' then
        (case (hexDigit a, hexDigit b) of
           (Some h, Some l) \<Rightarrow> char_of (16 * h + l) # fromPercentEncoding cs
         | _ \<Rightarrow> c # fromPercentEncoding (a # b # cs))
      else c # fromPercentEncoding (a # b # cs))"
| "fromPercentEncoding cs = cs"

text \<open>\<^verbatim>\<open>urlParam\<close> (animscript.cpp, line 71).\<close>

definition urlParam :: "string \<Rightarrow> string" where
  "urlParam param = trimmed (fromPercentEncoding (trimmed param))"


subsection \<open>Qt values: QVariant, QUuid\<close>

definition digit_table :: "(char \<times> nat) list" where
  "digit_table = zip ''0123456789'' [0, 1, 2, 3, 4, 5, 6, 7, 8, 9]"

fun digitsValue :: "nat \<Rightarrow> string \<Rightarrow> nat option" where
  "digitsValue acc [] = Some acc"
| "digitsValue acc (c # cs) =
     (case map_of digit_table c of None \<Rightarrow> None | Some d \<Rightarrow> digitsValue (10 * acc + d) cs)"

definition unsignedDecimal :: "string \<Rightarrow> real option" where
  "unsignedDecimal s =
     (let ip = takeWhile (\<lambda>c. c \<noteq> CHR ''.'') s; fp = drop (Suc (length ip)) s in
      if ip = [] \<and> fp = [] then None
      else (case (digitsValue 0 ip, digitsValue 0 fp) of
              (Some i, Some f) \<Rightarrow> Some (real i + real f / 10 ^ length fp)
            | _ \<Rightarrow> None))"

text \<open>\<^verbatim>\<open>QString::toDouble\<close> on plain decimal numbers (an optional sign, digits, an
  optional fraction); as in Qt, a text that is not a number gives 0. Exponents and the
  special values are not modelled.\<close>

definition QString_toDouble :: "string \<Rightarrow> real" where
  "QString_toDouble s =
     (case s of
        [] \<Rightarrow> 0
      | c # cs \<Rightarrow>
          if c = CHR ''-'' then (case unsignedDecimal cs of None \<Rightarrow> 0 | Some v \<Rightarrow> - v)
          else if c = CHR ''+'' then (case unsignedDecimal cs of None \<Rightarrow> 0 | Some v \<Rightarrow> v)
          else (case unsignedDecimal s of None \<Rightarrow> 0 | Some v \<Rightarrow> v))"

datatype QVariant = Invalid | VBool bool | VInt int | VDouble real | VString string

fun toDouble :: "QVariant \<Rightarrow> real" where
  "toDouble Invalid = 0"
| "toDouble (VBool b) = (if b then 1 else 0)"
| "toDouble (VInt i) = of_int i"
| "toDouble (VDouble d) = d"
| "toDouble (VString s) = QString_toDouble s"

text \<open>\<^verbatim>\<open>round\<close> of \<^verbatim>\<open>cmath\<close>, converted to \<^verbatim>\<open>int\<close>: halfway cases away from
  zero. (A value outside the range of \<^verbatim>\<open>int\<close> is undefined behaviour in C++ and is
  not modelled.)\<close>

definition cround :: "real \<Rightarrow> int" where
  "cround v = (if 0 \<le> v then \<lfloor>v + 1 / 2\<rfloor> else \<lceil>v - 1 / 2\<rceil>)"

text \<open>A \<^verbatim>\<open>QUuid\<close> is represented by its canonical text: 36 characters, lower-case
  hexadecimal digits in groups of 8-4-4-4-12. \<^verbatim>\<open>QUuid(text)\<close> reads that format, with
  or without braces, and gives the null identifier for anything else.\<close>

type_synonym QUuid = string

definition nullUuid :: QUuid where
  "nullUuid = ''00000000-0000-0000-0000-000000000000''"

definition uuidShape :: "string \<Rightarrow> bool" where
  "uuidShape s =
     (length s = 36 \<and>
      list_all (\<lambda>(p, c). if p = CHR ''-'' then c = CHR ''-'' else hexDigit c \<noteq> None)
        (zip ''xxxxxxxx-xxxx-xxxx-xxxx-xxxxxxxxxxxx'' s))"

definition stripBraces :: "string \<Rightarrow> string" where
  "stripBraces s =
     (if 2 \<le> length s \<and> hd s = CHR ''{'' \<and> last s = CHR ''}'' then butlast (tl s) else s)"

definition QUuid_fromString :: "string \<Rightarrow> QUuid" where
  "QUuid_fromString s =
     (let t = stripBraces s in if uuidShape t then toLower t else nullUuid)"

definition isNull :: "QUuid \<Rightarrow> bool" where
  "isNull u = (u = nullUuid)"

definition QUuid_toString :: "QUuid \<Rightarrow> string" where
  "QUuid_toString u = ''{'' @ u @ ''}''"

subsection \<open>Parameters and script descriptors\<close>

datatype ParamType =
  INVALID | LABEL | BOOL | LONG | DOUBLE | RGB | ARGB | GRADIENT | AGRADIENT | ANGLE | STRING

record Param =
  ptype :: ParamType
  pname :: string
  pprefix :: string
  ppostfix :: string
  defaultValue :: QVariant
  minimum :: QVariant
  maximum :: QVariant

datatype KpMode = KP_NONE | KP_NAME | KP_POSITION

record ScriptInfo =
  guid :: QUuid
  name :: string
  version :: string
  year :: string
  author :: string
  license :: string
  description :: string
  kpMode :: KpMode
  absoluteTime :: bool
  repeat :: bool
  preempt :: bool
  liveParams :: bool
  params :: "Param list"

text \<open>The descriptor of a freshly constructed \<^verbatim>\<open>AnimScript\<close>: a null identifier, empty
  texts, no parameters. (The flags are given their values at the start of \<^verbatim>\<open>load\<close>.)\<close>

definition emptyInfo :: ScriptInfo where
  "emptyInfo = \<lparr>guid = nullUuid, name = [], version = [], year = [], author = [],
     license = [], description = [], kpMode = KP_NONE, absoluteTime = False, repeat = False,
     preempt = False, liveParams = False, params = []\<rparr>"

text \<open>Modelled from the spec: \<^verbatim>\<open>hasParam\<close> is declared in animscript.h, which is not
  among the sources. The spec (section 4.1) describes it as a case-insensitive membership
  test over the ordered parameter list.\<close>

definition hasParam :: "ScriptInfo \<Rightarrow> string \<Rightarrow> bool" where
  "hasParam i n = list_ex (\<lambda>p. toLower (pname p) = toLower n) (params i)"

definition ONE_DAY :: real where
  "ONE_DAY = 24 * 60 * 60"

text \<open>The chain of comparisons on \<^verbatim>\<open>sType\<close> (lines 134-157); \<open>INVALID\<close> stands for
  the final \<^verbatim>\<open>continue\<close>.\<close>

definition paramType :: "string \<Rightarrow> ParamType" where
  "paramType sType =
     (if sType = ''long'' then LONG
      else if sType = ''double'' then DOUBLE
      else if sType = ''bool'' then BOOL
      else if sType = ''rgb'' then RGB
      else if sType = ''argb'' then ARGB
      else if sType = ''gradient'' then GRADIENT
      else if sType = ''agradient'' then AGRADIENT
      else if sType = ''angle'' then ANGLE
      else if sType = ''string'' then STRING
      else if sType = ''label'' then LABEL
      else INVALID)"

definition appendParam :: "Param \<Rightarrow> ScriptInfo \<Rightarrow> ScriptInfo" where
  "appendParam p i = i\<lparr>params := params i @ [p]\<rparr>"

text \<open>The names a script may not declare itself (line 176).\<close>

definition otherPredefined :: "string list" where
  "otherPredefined =
     [''delay'', ''kpdelay'', ''repeat'', ''kprepeat'', ''stop'', ''kpstop'', ''kprelease'']"

text \<open>One \<^verbatim>\<open>param\<close> line (lines 129-180). The state of the loop is the descriptor
  and the local \<^verbatim>\<open>defaultDuration\<close>; a \<^verbatim>\<open>continue\<close> returns it unchanged.\<close>

definition readParam :: "string list \<Rightarrow> ScriptInfo \<times> real \<Rightarrow> ScriptInfo \<times> real" where
  "readParam components0 st =
     (case st of (i, defaultDuration) \<Rightarrow>
        if length components0 < 3 then st
        else
          let components = components0 @ replicate (8 - length components0) [];
              ty = paramType (toLower (components ! 1))
          in
            if ty = INVALID then st
            else
              let nm = toLower (components ! 2) in
                if hasParam i nm then st
                else
                  let pre = urlParam (components ! 3);
                      post = urlParam (components ! 4);
                      def = VString (urlParam (components ! 5));
                      lo = VString (urlParam (components ! 6));
                      hi = VString (urlParam (components ! 7))
                  in
                    if (nm = ''trigger'' \<or> nm = ''kptrigger'') \<and> ty \<noteq> BOOL then st
                    else if nm = ''duration'' then
                      (let v = toDouble def in
                         if absoluteTime i \<or> ty \<noteq> DOUBLE \<or> v < 0.1 \<or> v > ONE_DAY then st
                         else
                           (appendParam \<lparr>ptype = ty, pname = nm, pprefix = pre, ppostfix = post,
                              defaultValue = def, minimum = VDouble 0.1,
                              maximum = VDouble ONE_DAY\<rparr> i, v))
                    else if nm \<in> set otherPredefined then st
                    else
                      (appendParam \<lparr>ptype = ty, pname = nm, pprefix = pre, ppostfix = post,
                         defaultValue = def, minimum = lo, maximum = hi\<rparr> i, defaultDuration))"

text \<open>One iteration of the reading loop (lines 96-181).\<close>

definition readInfoLine :: "string \<Rightarrow> ScriptInfo \<times> real \<Rightarrow> ScriptInfo \<times> real" where
  "readInfoLine raw st =
     (case st of (i, defaultDuration) \<Rightarrow>
        let components = split_space (trimmed raw) in
          if length components < 2 then st
          else
            let param = trimmed (components ! 0); arg = components ! 1 in
              if param = ''guid'' then (i\<lparr>guid := QUuid_fromString (urlParam arg)\<rparr>, defaultDuration)
              else if param = ''name'' then (i\<lparr>name := urlParam arg\<rparr>, defaultDuration)
              else if param = ''version'' then (i\<lparr>version := urlParam arg\<rparr>, defaultDuration)
              else if param = ''year'' then (i\<lparr>year := urlParam arg\<rparr>, defaultDuration)
              else if param = ''author'' then (i\<lparr>author := urlParam arg\<rparr>, defaultDuration)
              else if param = ''license'' then (i\<lparr>license := urlParam arg\<rparr>, defaultDuration)
              else if param = ''description'' then
                (i\<lparr>description := urlParam arg\<rparr>, defaultDuration)
              else if param = ''kpmode'' then
                (i\<lparr>kpMode := (if arg = ''position'' then KP_POSITION
                               else if arg = ''name'' then KP_NAME else KP_NONE)\<rparr>,
                 defaultDuration)
              else if param = ''time'' then
                (if defaultDuration > 0 then st
                 else (i\<lparr>absoluteTime := (arg = ''absolute'')\<rparr>, defaultDuration))
              else if param = ''repeat'' then (i\<lparr>repeat := (arg = ''on'')\<rparr>, defaultDuration)
              else if param = ''preempt'' then (i\<lparr>preempt := (arg = ''on'')\<rparr>, defaultDuration)
              else if param = ''parammode'' then
                (i\<lparr>liveParams := (arg = ''live'')\<rparr>, defaultDuration)
              else if param = ''param'' then readParam components st
              else st)"

text \<open>The reading loop (line 95): it ends at the first empty result of
  \<^verbatim>\<open>readLine\<close>, which is the end of the output.\<close>

fun readInfo :: "string list \<Rightarrow> ScriptInfo \<times> real \<Rightarrow> ScriptInfo \<times> real" where
  "readInfo [] st = st"
| "readInfo (raw # rest) st = (if raw = [] then st else readInfo rest (readInfoLine raw st))"

definition timingParam ::
  "ParamType \<Rightarrow> string \<Rightarrow> QVariant \<Rightarrow> QVariant \<Rightarrow> QVariant \<Rightarrow> Param" where
  "timingParam ty nm def lo hi =
     \<lparr>ptype = ty, pname = nm, pprefix = [], ppostfix = [], defaultValue = def,
      minimum = lo, maximum = hi\<rparr>"

text \<open>The timing parameters added after the loop (lines 187-227). The result is the
  descriptor and the final value of \<^verbatim>\<open>defaultDuration\<close>. The maximum of
  \<^verbatim>\<open>kprelease\<close> is the octal literal \<^verbatim>\<open>03\<close>.\<close>

definition addTimingParams :: "ScriptInfo \<Rightarrow> real \<Rightarrow> ScriptInfo \<times> real" where
  "addTimingParams i0 defaultDuration0 =
     (let i1 = (if \<not> hasParam i0 ''trigger''
                then appendParam (timingParam BOOL ''trigger'' (VBool True) (VInt 0) (VInt 0)) i0
                else i0);
          i2 = (if \<not> hasParam i1 ''kptrigger''
                then appendParam (timingParam BOOL ''kptrigger'' (VBool False) (VInt 0) (VInt 0)) i1
                else i1);
          i3 = (if absoluteTime i2 \<or> \<not> repeat i2 then i2\<lparr>preempt := False\<rparr> else i2);
          i4 = appendParam (timingParam DOUBLE ''delay'' (VDouble 0) (VDouble 0) (VDouble ONE_DAY)) i3;
          i5 = appendParam (timingParam DOUBLE ''kpdelay'' (VDouble 0) (VDouble 0) (VDouble ONE_DAY)) i4;
          i6 = appendParam (timingParam BOOL ''kprelease'' (VBool False) (VInt 0) (VInt 3)) i5;
          defaultDuration = (if defaultDuration0 < 0 then 1 else defaultDuration0);
          i7 = (if defaultDuration0 < 0 \<and> \<not> absoluteTime i6
                then appendParam
                  (timingParam DOUBLE ''duration'' (VDouble defaultDuration) (VDouble 0.1)
                     (VDouble ONE_DAY)) i6
                else i6)
      in
        if repeat i7 then
          (i7\<lparr>params := params i7 @
             [timingParam DOUBLE ''repeat'' (VDouble defaultDuration) (VDouble 0.1) (VDouble ONE_DAY),
              timingParam DOUBLE ''kprepeat'' (VDouble defaultDuration) (VDouble 0.1) (VDouble ONE_DAY),
              timingParam LONG ''stop'' (VInt (- 1)) (VInt 0) (VInt 1000),
              timingParam LONG ''kpstop'' (VInt 0) (VInt 0) (VInt 1000)]\<rparr>,
           defaultDuration)
        else
          (i7\<lparr>params := params i7 @
             [timingParam DOUBLE ''stop'' (VDouble (- 1)) (VDouble 0.1) (VDouble ONE_DAY),
              timingParam DOUBLE ''kpstop'' (VDouble (- 1)) (VDouble 0.1) (VDouble ONE_DAY)]\<rparr>,
           defaultDuration))"

subsection \<open>The AnimScript object\<close>

text \<open>A key position of the key map (an external class): only its coordinates are used.\<close>

record KeyPos =
  pos_x :: int
  pos_y :: int

text \<open>The lines written to the standard input of the child process. The text of a line
  is fixed by its constructor; how a number is formatted is not modelled, so a line
  carries the number itself.\<close>

datatype cmd =
  BeginKeymap
  | Keycount nat
  | KeymapKey string int int
  | EndKeymap
  | BeginParams
  | ParamCmd string QVariant
  | EndParams
  | BeginRun
  | Frame real
  | Start
  | KeyName string bool
  | KeyAt int int bool

text \<open>The fields of the class. The class is declared in animscript.h, which is not among
  the sources: the fields and their types are read off their uses in animscript.cpp.
  \<open>process\<close> is the child process handle: \<open>None\<close> is the null pointer, \<open>Some w\<close> a
  child that has been sent the lines \<open>w\<close>. \<open>paramValues\<close> is a \<^verbatim>\<open>QMap\<close>, given
  by its entries in key order.\<close>

record AnimScript =
  info :: ScriptInfo
  path :: string
  initialized :: bool
  process :: "cmd list option"
  keymap :: "string \<Rightarrow> KeyPos option"
  keys :: "string list"
  paramValues :: "(string \<times> QVariant) list"
  stopped :: bool
  firstFrame :: bool
  readFrame :: bool
  readAnyFrame :: bool
  lastFrame :: "64 word"
  durationMsec :: int
  repeatMsec :: int
  minX :: int
  minY :: int
  inputBuffer :: "string list"
  colors :: "string \<Rightarrow> 32 word option"

text \<open>The constructor (line 11) sets the path, \<^verbatim>\<open>initialized\<close> and \<^verbatim>\<open>process\<close>
  only. The other fields are indeterminate in C++ until \<^verbatim>\<open>init\<close> and
  \<^verbatim>\<open>start\<close> assign them; here they get fixed values.\<close>

definition newAnimScript :: "string \<Rightarrow> AnimScript" where
  "newAnimScript p =
     \<lparr>info = emptyInfo, path = p, initialized = False, process = None,
      keymap = (\<lambda>k. None), keys = [], paramValues = [], stopped = False, firstFrame = False,
      readFrame = False, readAnyFrame = False, lastFrame = 0, durationMsec = 0,
      repeatMsec = 0, minX = 0, minY = 0, inputBuffer = [], colors = (\<lambda>k. None)\<rparr>"

subsection \<open>Discovery: load, scan, list\<close>

text \<open>What \<^verbatim>\<open>waitForFinished(1000)\<close> leaves of the \<^verbatim>\<open>--ckb-info\<close> run: a process
  that is still running, or one that has ended and whose output is read line by line.\<close>

datatype InfoProcess = Running | Finished "string list"

text \<open>\<^verbatim>\<open>AnimScript::load\<close> (lines 77-229): the returned flag and the object with its
  descriptor filled in.\<close>

definition load :: "InfoProcess \<Rightarrow> AnimScript \<Rightarrow> bool \<times> AnimScript" where
  "load infoProcess s =
     (case infoProcess of
        Running \<Rightarrow> (False, s)
      | Finished out \<Rightarrow>
          let i0 = (info s)\<lparr>kpMode := KP_NONE, absoluteTime := False, preempt := False,
                     liveParams := False, repeat := True\<rparr>;
              st = readInfo out (i0, - 1);
              i1 = fst st
          in
            if isNull (guid i1) \<or> name i1 = [] \<or> version i1 = [] \<or> year i1 = [] \<or>
               author i1 = [] \<or> license i1 = []
            then (False, s\<lparr>info := i1\<rparr>)
            else (True, s\<lparr>info := fst (addTimingParams i1 (snd st))\<rparr>))"

text \<open>\<^verbatim>\<open>AnimScript::scan\<close> (lines 37-49). The directory is the list of its executable
  files, each with what its \<^verbatim>\<open>--ckb-info\<close> run does; the catalogue
  \<^verbatim>\<open>scripts\<close> is a map from identifiers to objects, cleared first.\<close>

fun scan_loop ::
  "(string \<times> InfoProcess) list \<Rightarrow> (QUuid \<Rightarrow> AnimScript option) \<Rightarrow> (QUuid \<Rightarrow> AnimScript option)"
where
  "scan_loop [] scripts = scripts"
| "scan_loop ((file, p) # rest) scripts =
     (let r = load p (newAnimScript file); script = snd r in
        if fst r \<and> scripts (guid (info script)) = None
        then scan_loop rest (scripts(guid (info script) \<mapsto> script))
        else scan_loop rest scripts)"

definition scan :: "(string \<times> InfoProcess) list \<Rightarrow> (QUuid \<Rightarrow> AnimScript option)" where
  "scan files = scan_loop files (\<lambda>g. None)"

text \<open>Assignment through \<^verbatim>\<open>QMap::operator[]\<close> on a map given by its entries in key
  order; \<^verbatim>\<open>QMap::values\<close> lists the values in that order.\<close>

fun qmap_insert :: "string \<Rightarrow> 'v \<Rightarrow> (string \<times> 'v) list \<Rightarrow> (string \<times> 'v) list" where
  "qmap_insert k v [] = [(k, v)]"
| "qmap_insert k v ((k', v') # kvs) =
     (if k < k' then (k, v) # (k', v') # kvs
      else if k = k' then (k, v) # kvs
      else (k', v') # qmap_insert k v kvs)"

text \<open>Line 59 and line 60: the identifier, in upper case, is appended to the name.\<close>

definition appendGuid :: "AnimScript \<Rightarrow> AnimScript" where
  "appendGuid s =
     s\<lparr>info := (info s)\<lparr>name := name (info s) @ '' '' @ toUpper (QUuid_toString (guid (info s)))\<rparr>\<rparr>"

text \<open>\<^verbatim>\<open>AnimScript::list\<close> (lines 51-65). The objects of the catalogue are reached
  through pointers and renamed in place, so they live in a store from addresses to
  objects. The pointers come in the order of \<^verbatim>\<open>scripts.values()\<close>, which a
  \<^verbatim>\<open>QHash\<close> leaves unspecified: the order is an argument. \<open>result\<close> maps a name
  to a pointer. The function returns the store and the pointers of
  \<^verbatim>\<open>result.values()\<close>.\<close>

fun list_loop ::
  "nat list \<Rightarrow> (nat \<Rightarrow> AnimScript) \<Rightarrow> (string \<times> nat) list \<Rightarrow> (nat \<Rightarrow> AnimScript) \<times> (string \<times> nat) list"
where
  "list_loop [] store result = (store, result)"
| "list_loop (script # rest) store result =
     (let nm = name (info (store script)) in
        case map_of result nm of
          Some last_script \<Rightarrow>
            let store1 = store(last_script := appendGuid (store last_script));
                store2 = store1(script := appendGuid (store1 script))
            in list_loop rest store2 (qmap_insert (name (info (store2 script))) script result)
        | None \<Rightarrow> list_loop rest store (qmap_insert nm script result))"

definition list_scripts :: "nat list \<Rightarrow> (nat \<Rightarrow> AnimScript) \<Rightarrow> (nat \<Rightarrow> AnimScript) \<times> nat list" where
  "list_scripts order store =
     (let r = list_loop order store [] in (fst r, map snd (snd r)))"

text \<open>The names a caller of \<^verbatim>\<open>list\<close> reads from the returned pointers.\<close>

definition listed_names :: "nat list \<Rightarrow> (nat \<Rightarrow> AnimScript) \<Rightarrow> string list" where
  "listed_names order store =
     (let r = list_scripts order store in map (\<lambda>p. name (info (fst r p))) (snd r))"

subsection \<open>The protocol state machine\<close>

text \<open>\<^verbatim>\<open>process->write(...)\<close>: a null pointer has nothing to write to.\<close>

definition pwrite :: "cmd \<Rightarrow> AnimScript \<Rightarrow> AnimScript option" where
  "pwrite c s =
     (case process s of None \<Rightarrow> None | Some w \<Rightarrow> Some (s\<lparr>process := Some (w @ [c])\<rparr>))"

primrec pwrites :: "cmd list \<Rightarrow> AnimScript \<Rightarrow> AnimScript option" where
  "pwrites [] s = Some s"
| "pwrites (c # cs) s = Option.bind (pwrite c s) (pwrites cs)"

text \<open>\<^verbatim>\<open>AnimScript::stop\<close> (lines 355-363).\<close>

definition stop :: "AnimScript \<Rightarrow> AnimScript" where
  "stop s = s\<lparr>colors := (\<lambda>k. None), process := None\<rparr>"

text \<open>\<^verbatim>\<open>_paramValues.value(key)\<close>: a default-constructed variant for a missing key.\<close>

definition paramValue :: "AnimScript \<Rightarrow> string \<Rightarrow> QVariant" where
  "paramValue s k = (case map_of (paramValues s) k of None \<Rightarrow> Invalid | Some v \<Rightarrow> v)"

text \<open>\<^verbatim>\<open>AnimScript::setDuration\<close> (lines 243-253).\<close>

definition setDuration :: "AnimScript \<Rightarrow> AnimScript" where
  "setDuration s =
     (if absoluteTime (info s) then s\<lparr>durationMsec := 1000, repeatMsec := 0\<rparr>
      else
        let d = cround (toDouble (paramValue s ''duration'') * 1000) in
          s\<lparr>durationMsec := (if d \<le> 0 then - 1 else d),
            repeatMsec := cround (toDouble (paramValue s ''repeat'') * 1000)\<rparr>)"

text \<open>\<^verbatim>\<open>AnimScript::init\<close> (lines 231-241).\<close>

definition init ::
  "(string \<Rightarrow> KeyPos option) \<Rightarrow> string list \<Rightarrow> (string \<times> QVariant) list \<Rightarrow> AnimScript \<Rightarrow> AnimScript"
where
  "init m ks vals s =
     (if path s = [] then s
      else
        (setDuration ((stop s)\<lparr>keymap := m, keys := ks, paramValues := vals\<rparr>))
          \<lparr>stopped := False, firstFrame := False, initialized := True\<rparr>)"

text \<open>\<^verbatim>\<open>AnimScript::printParams\<close> (lines 263-275).\<close>

definition printParams :: "AnimScript \<Rightarrow> AnimScript option" where
  "printParams s =
     pwrites (BeginParams # map (\<lambda>(k, v). ParamCmd k v) (paramValues s) @ [EndParams]) s"

text \<open>\<^verbatim>\<open>AnimScript::parameters\<close> (lines 255-261).\<close>

definition parameters :: "(string \<times> QVariant) list \<Rightarrow> AnimScript \<Rightarrow> AnimScript option" where
  "parameters vals s =
     (if \<not> initialized s \<or> process s = None \<or> \<not> liveParams (info s) then Some s
      else printParams (setDuration (s\<lparr>paramValues := vals\<rparr>)))"

definition INT_MAX :: int where
  "INT_MAX = 2147483647"

text \<open>The first loop of \<^verbatim>\<open>start\<close> (lines 290-300), over a copy of the key list:
  a key without a position is removed from \<^verbatim>\<open>keysCopy\<close>, the others lower the
  corner \<open>(minX, minY)\<close>.\<close>

fun upperLeft ::
  "(string \<Rightarrow> KeyPos option) \<Rightarrow> string list \<Rightarrow> string list \<times> int \<times> int \<Rightarrow> string list \<times> int \<times> int"
where
  "upperLeft m [] acc = acc"
| "upperLeft m (k # rest) (keysCopy, mx, my) =
     (case m k of
        None \<Rightarrow> upperLeft m rest (removeAll k keysCopy, mx, my)
      | Some pos \<Rightarrow>
          upperLeft m rest
            (keysCopy, (if pos_x pos < mx then pos_x pos else mx),
             (if pos_y pos < my then pos_y pos else my)))"

text \<open>The lines of the key map (lines 302-308).\<close>

definition keymapLines ::
  "(string \<Rightarrow> KeyPos option) \<Rightarrow> string list \<Rightarrow> int \<Rightarrow> int \<Rightarrow> cmd list" where
  "keymapLines m keysCopy mx my =
     BeginKeymap # Keycount (length keysCopy) #
     concat (map (\<lambda>k. case m k of None \<Rightarrow> []
                       | Some pos \<Rightarrow> [KeymapKey k (pos_x pos - mx) (pos_y pos - my)]) keysCopy)
     @ [EndKeymap]"

text \<open>\<^verbatim>\<open>AnimScript::start\<close> (lines 277-314).\<close>

definition start :: "64 word \<Rightarrow> AnimScript \<Rightarrow> AnimScript option" where
  "start timestamp s =
     (if \<not> initialized s then Some s
      else
        let s1 = (stop s)\<lparr>stopped := False, firstFrame := False, readFrame := False,
                    readAnyFrame := False, process := Some []\<rparr>;
            corner = upperLeft (keymap s1) (keys s1) (keys s1, INT_MAX, INT_MAX);
            s2 = s1\<lparr>minX := fst (snd corner), minY := snd (snd corner)\<rparr>
        in do {
          s3 \<leftarrow> pwrites (keymapLines (keymap s2) (fst corner) (minX s2) (minY s2)) s2;
          s4 \<leftarrow> printParams s3;
          s5 \<leftarrow> pwrite BeginRun s4;
          Some (s5\<lparr>lastFrame := timestamp\<rparr>)
        })"

text \<open>The loop of \<^verbatim>\<open>nextFrame\<close> (lines 411-414).\<close>

function skipDurations :: "real \<Rightarrow> AnimScript \<Rightarrow> (real \<times> AnimScript) option" where
  "skipDurations delta s =
     (if delta > 1 then
        (case pwrite (Frame 1) s of None \<Rightarrow> None | Some s' \<Rightarrow> skipDurations (delta - 1) s')
      else Some (delta, s))"
  by pat_completeness auto
termination
proof (relation "measure (\<lambda>(delta, s). nat \<lceil>delta\<rceil>)")
  show "wf (measure (\<lambda>(delta :: real, s :: AnimScript). nat \<lceil>delta\<rceil>))"
    by simp
next
  fix delta :: real and s x2 :: AnimScript
  assume "1 < delta"
  then have "1 < \<lceil>delta\<rceil>"
    by (simp add: less_ceiling_iff)
  moreover have "\<lceil>delta - 1\<rceil> = \<lceil>delta\<rceil> - 1"
    by simp
  ultimately show "((delta - 1, x2), delta, s) \<in> measure (\<lambda>(delta, s). nat \<lceil>delta\<rceil>)"
    by simp
qed

text \<open>\<^verbatim>\<open>AnimScript::nextFrame\<close> (lines 405-421). With \<^verbatim>\<open>durationMsec\<close> zero the
  quotient is not a number or infinite (and then the loop never ends): the model returns
  \<open>None\<close>. \<^verbatim>\<open>setDuration\<close> never leaves it zero.\<close>

definition nextFrame :: "64 word \<Rightarrow> AnimScript \<Rightarrow> AnimScript option" where
  "nextFrame timestamp s =
     (if durationMsec s = 0 then None
      else
        let s1 = (if timestamp \<le> lastFrame s then s\<lparr>lastFrame := timestamp\<rparr> else s);
            delta = real (unat (timestamp - lastFrame s1)) / real_of_int (durationMsec s1)
        in do {
          r \<leftarrow> (if \<not> absoluteTime (info s1) then skipDurations delta s1 else Some (delta, s1));
          s3 \<leftarrow> pwrite (Frame (if fst r < 0 then 0 else fst r)) ((snd r)\<lparr>lastFrame := timestamp\<rparr>);
          Some (s3\<lparr>firstFrame := True\<rparr>)
        })"

text \<open>Modelled from the spec: the default value of the argument \<^verbatim>\<open>allowPreempt\<close> of
  \<^verbatim>\<open>retrigger\<close> is given by its declaration in animscript.h, which is not among the
  sources. The spec (section 4.3) has the synthetic call made with preemption disabled.\<close>

definition allowPreempt_default :: bool where
  "allowPreempt_default = False"

text \<open>\<^verbatim>\<open>AnimScript::retrigger\<close> (lines 316-326).\<close>

function retrigger :: "64 word \<Rightarrow> bool \<Rightarrow> AnimScript \<Rightarrow> AnimScript option" where
  "retrigger timestamp allowPreempt s =
     (if \<not> initialized s then Some s
      else do {
        s1 \<leftarrow> (if allowPreempt \<and> preempt (info s) \<and> repeatMsec s > 0
               then retrigger (timestamp - word_of_int (repeatMsec s)) allowPreempt_default s
               else Some s);
        s2 \<leftarrow> (if process s1 = None then start timestamp s1 else Some s1);
        s3 \<leftarrow> nextFrame timestamp s2;
        pwrite Start s3
      })"
  by pat_completeness auto
termination
  by (relation "measure (\<lambda>(timestamp, allowPreempt, s). if allowPreempt then 1 else 0)")
    (auto simp: allowPreempt_default_def)

text \<open>\<^verbatim>\<open>AnimScript::keypress\<close> (lines 328-353).\<close>

definition keypress :: "string \<Rightarrow> bool \<Rightarrow> 64 word \<Rightarrow> AnimScript \<Rightarrow> AnimScript option" where
  "keypress key pressed timestamp s =
     (if \<not> initialized s then Some s
      else do {
        s1 \<leftarrow> (if process s = None then start timestamp s else Some s);
        (case kpMode (info s1) of
           KP_NONE \<Rightarrow> if pressed then retrigger timestamp allowPreempt_default s1 else Some s1
         | KP_NAME \<Rightarrow> do { s2 \<leftarrow> nextFrame timestamp s1; pwrite (KeyName key pressed) s2 }
         | KP_POSITION \<Rightarrow>
             (case keymap s1 key of
                None \<Rightarrow> Some s1
              | Some kp \<Rightarrow> do {
                  s2 \<leftarrow> nextFrame timestamp s1;
                  pwrite (KeyAt (pos_x kp - minX s2) (pos_y kp - minY s2) pressed) s2
                }))
      })"

text \<open>\<^verbatim>\<open>QString::toUInt(0, 16)\<close> on plain hexadecimal digits: 0 for anything else and
  for a value that does not fit 32 bits.\<close>

fun hexValue :: "nat \<Rightarrow> string \<Rightarrow> nat option" where
  "hexValue acc [] = Some acc"
| "hexValue acc (c # cs) =
     (case hexDigit c of None \<Rightarrow> None | Some d \<Rightarrow> hexValue (16 * acc + d) cs)"

definition toUInt16 :: "string \<Rightarrow> 32 word" where
  "toUInt16 s =
     (case (if s = [] then None else hexValue 0 s) of
        None \<Rightarrow> 0
      | Some v \<Rightarrow> if v < 2 ^ 32 then of_nat v else 0)"

text \<open>One buffered line of a frame (lines 379-382).\<close>

definition readColor :: "string \<Rightarrow> AnimScript \<Rightarrow> AnimScript" where
  "readColor input s =
     (let parts = split_space input in
        if length parts \<noteq> 3 \<or> parts ! 0 \<noteq> ''argb'' then s
        else s\<lparr>colors := (colors s)(parts ! 1 \<mapsto> toUInt16 (parts ! 2))\<rparr>)"

text \<open>The loop of \<^verbatim>\<open>readProcess\<close> (lines 366-389) over the lines the child has
  written; the result is the object and the lines left unread.\<close>

fun readLines :: "string list \<Rightarrow> AnimScript \<Rightarrow> AnimScript \<times> string list" where
  "readLines [] s = (s, [])"
| "readLines (raw # rest) s =
     (let line = trimmed raw in
        if inputBuffer s = [] \<and> line \<noteq> ''begin frame'' then
          (if line = ''end run'' then (s\<lparr>stopped := True\<rparr>, rest) else readLines rest s)
        else if line = ''end frame'' then
          readLines rest
            ((fold readColor (inputBuffer s) s)
               \<lparr>inputBuffer := [], readFrame := True, readAnyFrame := True\<rparr>)
        else readLines rest (s\<lparr>inputBuffer := inputBuffer s @ [line]\<rparr>))"

text \<open>\<^verbatim>\<open>AnimScript::readProcess\<close> (lines 365-390).\<close>

definition readProcess :: "string list \<Rightarrow> AnimScript \<Rightarrow> (AnimScript \<times> string list) option" where
  "readProcess available s =
     (case process s of None \<Rightarrow> None | Some w \<Rightarrow> Some (readLines available s))"

text \<open>\<^verbatim>\<open>AnimScript::frame\<close> (lines 392-403).\<close>

definition frame :: "64 word \<Rightarrow> AnimScript \<Rightarrow> AnimScript option" where
  "frame timestamp s =
     (if \<not> initialized s \<or> stopped s then Some s
      else do {
        s1 \<leftarrow> (if process s = None then start timestamp s else Some s);
        s2 \<leftarrow> (if readFrame s1 \<or> \<not> firstFrame s1 then nextFrame timestamp s1 else Some s1);
        Some (s2\<lparr>readFrame := False\<rparr>)
      })"

text \<open>The lines \<^verbatim>\<open>start\<close> sends to a new child: the key map, the parameters and
  \<^verbatim>\<open>begin run\<close>.\<close>

definition handshake :: "AnimScript \<Rightarrow> cmd list" where
  "handshake s =
     (let corner = upperLeft (keymap s) (keys s) (keys s, INT_MAX, INT_MAX) in
        keymapLines (keymap s) (fst corner) (fst (snd corner)) (snd (snd corner))
        @ BeginParams # map (\<lambda>(k, v). ParamCmd k v) (paramValues s) @ [EndParams, BeginRun])"

subsection \<open>Example objects\<close>

text \<open>An initialized instance in relative time with a duration of one second and a running
  child, with the clock at 1000. The lines sent to the child so far are left out.\<close>

definition runningInstance :: AnimScript where
  "runningInstance =
     (newAnimScript ''/ckb-animations/wave'')
       \<lparr>initialized := True, process := Some [], lastFrame := 1000, durationMsec := 1000\<rparr>"

text \<open>An initialized instance of a script with live parameters, in relative time, whose
  child has not been started yet.\<close>

definition liveInstance :: AnimScript where
  "liveInstance =
     init (\<lambda>k. None) [] [(''duration'', VDouble 1)]
       ((newAnimScript ''/ckb-animations/wave'')\<lparr>info := emptyInfo\<lparr>liveParams := True\<rparr>\<rparr>)"


subsection \<open>Runs of frame ticks and child output\<close>

text \<open>A run of an instance: the scheduler calls \<^verbatim>\<open>frame\<close>, and the child's output
  makes Qt call \<^verbatim>\<open>readProcess\<close> with the lines that can be read.\<close>

datatype event = FrameTick "64 word" | ChildOutput "string list"

fun step :: "event \<Rightarrow> AnimScript \<Rightarrow> AnimScript option" where
  "step (FrameTick t) s = frame t s"
| "step (ChildOutput ls) s = map_option fst (readProcess ls s)"

fun run :: "event list \<Rightarrow> AnimScript \<Rightarrow> AnimScript option" where
  "run [] s = Some s"
| "run (e # es) s = Option.bind (step e s) (run es)"

text \<open>Whether the lines hold the end of a frame block, for a parser that is inside a
  block or not: an \<^verbatim>\<open>end frame\<close> inside a block, before any \<^verbatim>\<open>end run\<close>
  outside of one.\<close>

fun completesFrame :: "bool \<Rightarrow> string list \<Rightarrow> bool" where
  "completesFrame inside [] = False"
| "completesFrame inside (raw # rest) =
     (let line = trimmed raw in
        if \<not> inside \<and> line \<noteq> ''begin frame'' then
          line \<noteq> ''end run'' \<and> completesFrame inside rest
        else if line = ''end frame'' then True
        else completesFrame True rest)"

text \<open>Whether some \<^verbatim>\<open>readProcess\<close> of the run reads the end of a frame block.\<close>

fun frameRead :: "event list \<Rightarrow> AnimScript \<Rightarrow> bool" where
  "frameRead [] s = False"
| "frameRead (e # es) s =
     ((case e of ChildOutput ls \<Rightarrow> completesFrame (inputBuffer s \<noteq> []) ls | FrameTick t \<Rightarrow> False) \<or>
      (case step e s of None \<Rightarrow> False | Some s' \<Rightarrow> frameRead es s'))"

text \<open>The state in which \<^verbatim>\<open>frame\<close> holds the clock back: a frame command has been
  sent to the running child and no frame has been read since.\<close>

definition throttled :: "AnimScript \<Rightarrow> bool" where
  "throttled s = (initialized s \<and> process s \<noteq> None \<and> firstFrame s \<and> \<not> readFrame s)"

text \<open>The objects of an example run: after the first tick at 1000, and after a frame of
  the child has been read.\<close>

definition tickedInstance :: AnimScript where
  "tickedInstance =
     runningInstance\<lparr>lastFrame := 1000, process := Some [Frame 0], firstFrame := True,
       readFrame := False\<rparr>"

definition readInstance :: AnimScript where
  "readInstance =
     tickedInstance\<lparr>colors := (colors tickedInstance)(''esc'' \<mapsto> 0xff00ff00),
       inputBuffer := [], readFrame := True, readAnyFrame := True\<rparr>"

definition exampleRun :: "event list" where
  "exampleRun =
     [FrameTick 1016, ChildOutput [''begin frame'', ''argb esc ff00ff00'', ''end frame'']]"

subsection \<open>Descriptors during the reading loop\<close>

text \<open>The descriptor of a new object when the reading loop starts (lines 89-91).\<close>

definition startInfo :: ScriptInfo where
  "startInfo = emptyInfo\<lparr>kpMode := KP_NONE, absoluteTime := False, preempt := False,
     liveParams := False, repeat := True\<rparr>"




subsection \<open>Example outputs of scripts\<close>

text \<open>The six required lines of an info output, for an identifier and a name.\<close>

definition infoLines :: "string \<Rightarrow> string \<Rightarrow> string list" where
  "infoLines g n =
     [''guid '' @ g @ [CHR 0x0A],
      ''name '' @ n @ [CHR 0x0A],
      ''version 1.0'' @ [CHR 0x0A],
      ''year 2014'' @ [CHR 0x0A],
      ''author MSC'' @ [CHR 0x0A],
      ''license GPLv2'' @ [CHR 0x0A]]"

text \<open>The descriptor read from them.\<close>

definition metaInfo :: "QUuid \<Rightarrow> string \<Rightarrow> ScriptInfo" where
  "metaInfo g n =
     startInfo\<lparr>guid := g, name := n, version := ''1.0'', year := ''2014'', author := ''MSC'',
       license := ''GPLv2''\<rparr>"

text \<open>Lines that declare a duration of 0.05 and of 2.5 seconds, ask for absolute time, and
  switch repeating off.\<close>

definition shortDuration :: string where
  "shortDuration = ''param double duration   0.05'' @ [CHR 0x0A]"

definition longDuration :: string where
  "longDuration = ''param double duration   2.5'' @ [CHR 0x0A]"

definition timeAbsolute :: string where
  "timeAbsolute = ''time absolute'' @ [CHR 0x0A]"

definition repeatOff :: string where
  "repeatOff = ''repeat off'' @ [CHR 0x0A]"

text \<open>Four outputs: a duration below the minimum; a valid duration followed by
  \<^verbatim>\<open>time absolute\<close>; \<^verbatim>\<open>time absolute\<close> followed by a duration; and a script
  that does not repeat.\<close>

definition waveOutput :: "string list" where
  "waveOutput = infoLines ''{01234567-89ab-cdef-0123-456789abcdef}'' ''Wave'' @ [shortDuration]"

definition fadeOutput :: "string list" where
  "fadeOutput =
     infoLines ''{11111111-2222-3333-4444-555555555555}'' ''Fade'' @ [longDuration, timeAbsolute]"

definition pulseOutput :: "string list" where
  "pulseOutput =
     infoLines ''{99999999-8888-7777-6666-555555555555}'' ''Pulse'' @ [timeAbsolute, longDuration]"

definition blinkOutput :: "string list" where
  "blinkOutput = infoLines ''{aaaaaaaa-bbbb-cccc-dddd-eeeeeeeeeeee}'' ''Blink'' @ [repeatOff]"

text \<open>The parameter an accepted duration of 2.5 seconds becomes.\<close>

definition durationParam :: Param where
  "durationParam =
     \<lparr>ptype = DOUBLE, pname = ''duration'', pprefix = [], ppostfix = [],
      defaultValue = VString ''2.5'', minimum = VDouble 0.1, maximum = VDouble 86400\<rparr>"

text \<open>The descriptors the reading loop makes of the four outputs.\<close>

definition waveMeta :: ScriptInfo where
  "waveMeta = metaInfo ''01234567-89ab-cdef-0123-456789abcdef'' ''Wave''"

definition fadeMeta :: ScriptInfo where
  "fadeMeta = appendParam durationParam (metaInfo ''11111111-2222-3333-4444-555555555555'' ''Fade'')"

definition pulseMeta :: ScriptInfo where
  "pulseMeta = (metaInfo ''99999999-8888-7777-6666-555555555555'' ''Pulse'')\<lparr>absoluteTime := True\<rparr>"

definition blinkMeta :: ScriptInfo where
  "blinkMeta = (metaInfo ''aaaaaaaa-bbbb-cccc-dddd-eeeeeeeeeeee'' ''Blink'')\<lparr>repeat := False\<rparr>"



subsection \<open>Candidates of a scan\<close>

text \<open>For a file of the directory and what its info run does: the object
  \<^verbatim>\<open>scan\<close> constructs and loads, and whether \<^verbatim>\<open>load\<close> returns true.\<close>

definition loaded :: "string \<times> InfoProcess \<Rightarrow> AnimScript" where
  "loaded fp = snd (load (snd fp) (newAnimScript (fst fp)))"

definition accepted :: "string \<times> InfoProcess \<Rightarrow> bool" where
  "accepted fp = fst (load (snd fp) (newAnimScript (fst fp)))"

text \<open>A directory with a script that is still running after the timeout, two valid
  scripts and one whose output lacks the license.\<close>

definition exampleDir :: "(string \<times> InfoProcess) list" where
  "exampleDir =
     [(''/ckb-animations/hang'', Running),
      (''/ckb-animations/wave'', Finished waveOutput),
      (''/ckb-animations/broken'',
         Finished (take 5 (infoLines ''{77777777-0000-0000-0000-000000000000}'' ''Broken''))),
      (''/ckb-animations/fade'', Finished fadeOutput)]"

subsection \<open>Example catalogues\<close>

text \<open>A loaded object with a given identifier and name.\<close>

definition namedScript :: "QUuid \<Rightarrow> string \<Rightarrow> AnimScript" where
  "namedScript g n = (newAnimScript ''/ckb-animations/script'')\<lparr>info := metaInfo g n\<rparr>"

text \<open>Three objects with the same name, at the addresses 0, 1 and 2; and two objects with
  the same name beside one with a name of its own.\<close>

definition tripleStore :: "nat \<Rightarrow> AnimScript" where
  "tripleStore a =
     (if a = 0 then namedScript ''aaaaaaaa-0000-0000-0000-000000000001'' ''Wave''
      else if a = 1 then namedScript ''bbbbbbbb-0000-0000-0000-000000000002'' ''Wave''
      else namedScript ''cccccccc-0000-0000-0000-000000000003'' ''Wave'')"

definition mixedStore :: "nat \<Rightarrow> AnimScript" where
  "mixedStore a =
     (if a = 0 then namedScript ''aaaaaaaa-0000-0000-0000-000000000001'' ''Wave''
      else if a = 1 then namedScript ''bbbbbbbb-0000-0000-0000-000000000002'' ''Wave''
      else namedScript ''cccccccc-0000-0000-0000-000000000003'' ''Wave 2'')"

text \<open>The orders in which \<^verbatim>\<open>scripts.values()\<close> can give three pointers.\<close>

definition orders3 :: "nat list list" where
  "orders3 = [[0, 1, 2], [0, 2, 1], [1, 0, 2], [1, 2, 0], [2, 0, 1], [2, 1, 0]]"

text \<open>The names of three objects called Wave, each followed by its identifier once.\<close>

definition expectedNames :: "string list" where
  "expectedNames =
     [''Wave {AAAAAAAA-0000-0000-0000-000000000001}'',
      ''Wave {BBBBBBBB-0000-0000-0000-000000000002}'',
      ''Wave {CCCCCCCC-0000-0000-0000-000000000003}'']"

section \<open>Properties\<close>

subsection \<open>Writing to the child\<close>

lemma pwrite_Some: "process s = Some w \<Longrightarrow> pwrite c s = Some (s\<lparr>process := Some (w @ [c])\<rparr>)"
  by (simp add: pwrite_def)

lemma pwrite_None: "process s = None \<Longrightarrow> pwrite c s = None"
  by (simp add: pwrite_def)

lemma pwrites_Some: "process s = Some w \<Longrightarrow> pwrites cs s = Some (s\<lparr>process := Some (w @ cs)\<rparr>)"
  by (induction cs arbitrary: s w) (simp_all add: pwrite_Some)

lemma skipDurations_Some:
  "process s = Some w \<Longrightarrow>
   skipDurations delta s =
     Some (delta - real (nat (\<lceil>delta\<rceil> - 1)),
           s\<lparr>process := Some (w @ replicate (nat (\<lceil>delta\<rceil> - 1)) (Frame 1))\<rparr>)"
proof (induction delta s arbitrary: w rule: skipDurations.induct)
  case (1 delta s)
  show ?case
  proof (cases "1 < delta")
    case True
    then have c: "1 < \<lceil>delta\<rceil>"
      by (simp add: less_ceiling_iff)
    let ?s' = "s\<lparr>process := Some (w @ [Frame 1])\<rparr>"
    have w: "pwrite (Frame 1) s = Some ?s'"
      using "1.prems" by (rule pwrite_Some)
    have cd: "\<lceil>delta - 1\<rceil> = \<lceil>delta\<rceil> - 1"
      by simp
    have n: "nat (\<lceil>delta\<rceil> - 1) = Suc (nat (\<lceil>delta - 1\<rceil> - 1))"
      unfolding cd using c by arith
    have "skipDurations (delta - 1) ?s' =
      Some (delta - 1 - real (nat (\<lceil>delta - 1\<rceil> - 1)),
            ?s'\<lparr>process := Some ((w @ [Frame 1]) @ replicate (nat (\<lceil>delta - 1\<rceil> - 1)) (Frame 1))\<rparr>)"
      using True w by (intro "1.IH") simp_all
    then show ?thesis
      using True w n by (simp add: replicate_app_Cons_same del: skipDurations.simps) (simp)
  next
    case False
    then have "\<lceil>delta\<rceil> \<le> 1"
      by (simp add: ceiling_le_iff)
    then show ?thesis
      using False "1.prems" by simp
  qed
qed

text \<open>The equations of the two recursive functions are unfolded by hand.\<close>

declare skipDurations.simps [simp del]

declare retrigger.simps [simp del]

subsection \<open>The frame clock\<close>



subsection \<open>Reading the output of the child\<close>

lemma readLines_ignored:
  "inputBuffer s = [] \<Longrightarrow>
   \<forall>l\<in>set pre. trimmed l \<noteq> ''begin frame'' \<and> trimmed l \<noteq> ''end run'' \<Longrightarrow>
   readLines (pre @ others) s = readLines others s"
  by (induction pre) (simp_all add: Let_def)

lemma readLines_buffered:
  "inputBuffer s \<noteq> [] \<Longrightarrow> \<forall>l\<in>set body. trimmed l \<noteq> ''end frame'' \<Longrightarrow>
   readLines (body @ others) s = readLines others (s\<lparr>inputBuffer := inputBuffer s @ map trimmed body\<rparr>)"
  by (induction body arbitrary: s) (simp_all add: Let_def)

lemma trimmed_examples:
  "trimmed ''begin frame'' = ''begin frame''"
  "trimmed ''end frame'' = ''end frame''"
  "trimmed ''end run'' = ''end run''"
  "trimmed ''argb esc ff00ff00'' = ''argb esc ff00ff00''"
  "trimmed ''hello'' = ''hello''"
  by (simp_all add: trimmed_def isSpace_def)

text \<open>C2 (as amended): a line that is \<^verbatim>\<open>end run\<close> once trimmed marks the instance
  stopped and ends the processing when it arrives outside a frame block, that is with
  nothing buffered, whatever ignored lines came before it: the lines after it are left
  unread. When it arrives inside a frame block, after \<^verbatim>\<open>begin frame\<close> and before
  \<^verbatim>\<open>end frame\<close>, it is buffered like any other line of the block, the instance is
  not marked stopped and the processing goes on with the next line.\<close>

theorem end_run_outside_frame:
  assumes p: "process s = Some w" and e: "trimmed raw = ''end run''"
  shows
    "(inputBuffer s = [] \<and>
      (\<forall>l\<in>set pre. trimmed l \<noteq> ''begin frame'' \<and> trimmed l \<noteq> ''end run'') \<longrightarrow>
        readProcess (pre @ raw # rest) s = Some (s\<lparr>stopped := True\<rparr>, rest)) \<and>
     (inputBuffer s \<noteq> [] \<and> (\<forall>l\<in>set body. trimmed l \<noteq> ''end frame'') \<longrightarrow>
        readProcess (body @ raw # rest) s =
          readProcess rest (s\<lparr>inputBuffer := inputBuffer s @ map trimmed body @ [''end run'']\<rparr>))"
proof (intro conjI impI)
  assume a: "inputBuffer s = [] \<and>
    (\<forall>l\<in>set pre. trimmed l \<noteq> ''begin frame'' \<and> trimmed l \<noteq> ''end run'')"
  then have "readLines (pre @ raw # rest) s = readLines (raw # rest) s"
    by (intro readLines_ignored) simp_all
  also have "\<dots> = (s\<lparr>stopped := True\<rparr>, rest)"
    using a e by simp
  finally show "readProcess (pre @ raw # rest) s = Some (s\<lparr>stopped := True\<rparr>, rest)"
    using p by (simp add: readProcess_def)
next
  assume a: "inputBuffer s \<noteq> [] \<and> (\<forall>l\<in>set body. trimmed l \<noteq> ''end frame'')"
  let ?s = "s\<lparr>inputBuffer := inputBuffer s @ map trimmed body\<rparr>"
  have "readLines (body @ raw # rest) s = readLines (raw # rest) ?s"
    using a by (intro readLines_buffered) simp_all
  also have "\<dots> = readLines rest (?s\<lparr>inputBuffer := inputBuffer ?s @ [''end run'']\<rparr>)"
    using a e by simp
  finally show "readProcess (body @ raw # rest) s =
      readProcess rest (s\<lparr>inputBuffer := inputBuffer s @ map trimmed body @ [''end run'']\<rparr>)"
    using p by (simp add: readProcess_def)
qed

theorem end_run_outside_frame_witness:
  "readProcess [''hello'', ''end run'', ''begin frame''] runningInstance =
     Some (runningInstance\<lparr>stopped := True\<rparr>, [''begin frame'']) \<and>
   readProcess [''argb esc ff00ff00'', ''end run'']
       (runningInstance\<lparr>inputBuffer := [''begin frame'']\<rparr>) =
     Some (runningInstance\<lparr>inputBuffer :=
        [''begin frame'', ''argb esc ff00ff00'', ''end run'']\<rparr>, [])"
proof -
  have p: "process runningInstance = Some []"
    and b: "inputBuffer runningInstance = []"
    by (simp_all add: runningInstance_def newAnimScript_def)
  let ?s = "runningInstance\<lparr>inputBuffer := [''begin frame'']\<rparr>"
  have p': "process ?s = Some []"
    by (simp add: p)
  have e: "trimmed ''end run'' = ''end run''"
    by (rule trimmed_examples)
  have "readProcess ([''hello''] @ ''end run'' # [''begin frame'']) runningInstance =
      Some (runningInstance\<lparr>stopped := True\<rparr>, [''begin frame''])"
    using end_run_outside_frame [OF p e, where pre = "[''hello'']" and rest = "[''begin frame'']", THEN conjunct1] b
    by (simp add: trimmed_examples)
  moreover have "readProcess ([''argb esc ff00ff00''] @ ''end run'' # []) ?s =
      readProcess [] (?s\<lparr>inputBuffer := inputBuffer ?s @
        map trimmed [''argb esc ff00ff00''] @ [''end run'']\<rparr>)"
    using end_run_outside_frame [OF p' e, where body = "[''argb esc ff00ff00'']" and rest = "[]", THEN conjunct2]
    by (simp add: trimmed_examples)
  ultimately show ?thesis
    by (simp add: trimmed_examples readProcess_def p)
qed

text \<open>The claim as stated fails: an \<^verbatim>\<open>end run\<close> between \<^verbatim>\<open>begin frame\<close> and
  \<^verbatim>\<open>end frame\<close> does not stop the instance, and the lines after it are processed
  (here a second \<^verbatim>\<open>begin frame\<close> is read and buffered).\<close>

theorem end_run_inside_frame_counterexample:
  "readProcess [''begin frame'', ''end run'', ''end frame'', ''begin frame''] runningInstance =
     Some (runningInstance\<lparr>inputBuffer := [''begin frame''], readFrame := True,
             readAnyFrame := True\<rparr>, []) \<and>
   \<not> stopped (runningInstance\<lparr>inputBuffer := [''begin frame''], readFrame := True,
             readAnyFrame := True\<rparr>)"
  by (simp add: readProcess_def runningInstance_def newAnimScript_def trimmed_examples
      readColor_def Let_def)

subsection \<open>Live parameters\<close>

lemma printParams_Some:
  "process s = Some w \<Longrightarrow>
   printParams s =
     Some (s\<lparr>process := Some (w @ BeginParams # map (\<lambda>(k, v). ParamCmd k v) (paramValues s)
                                  @ [EndParams])\<rparr>)"
  by (simp add: printParams_def pwrites_Some del: pwrites.simps)

lemma setDuration_fields [simp]:
  "process (setDuration s) = process s"
  "paramValues (setDuration s) = paramValues s"
  "initialized (setDuration s) = initialized s"
  "info (setDuration s) = info s"
  by (simp_all add: setDuration_def Let_def)

lemma liveInstance_fields:
  "initialized liveInstance"
  "liveParams (info liveInstance)"
  "process liveInstance = None"
  "paramValues liveInstance = [(''duration'', VDouble 1)]"
  "durationMsec liveInstance = 1000"
  "\<not> absoluteTime (info liveInstance)"
  by (simp_all add: liveInstance_def init_def newAnimScript_def emptyInfo_def stop_def
      setDuration_def paramValue_def cround_def Let_def)

text \<open>C3 (as amended): \<^verbatim>\<open>parameters(values)\<close> leaves the instance unchanged unless
  it is initialized, a child process is running and the descriptor declares live
  parameters. When all three hold, it replaces the parameter values, recomputes
  \<^verbatim>\<open>durationMsec\<close> and \<^verbatim>\<open>repeatMsec\<close> from them and sends the child a
  parameter block with the new values.\<close>

theorem parameters_live:
  "(\<not> (initialized s \<and> process s \<noteq> None \<and> liveParams (info s)) \<longrightarrow>
      parameters vals s = Some s) \<and>
   (initialized s \<and> process s = Some w \<and> liveParams (info s) \<longrightarrow>
      parameters vals s =
        Some ((setDuration (s\<lparr>paramValues := vals\<rparr>))
                \<lparr>process := Some (w @ BeginParams # map (\<lambda>(k, v). ParamCmd k v) vals
                                    @ [EndParams])\<rparr>))"
proof (intro conjI impI)
  assume "\<not> (initialized s \<and> process s \<noteq> None \<and> liveParams (info s))"
  then show "parameters vals s = Some s"
    by (auto simp: parameters_def)
next
  assume a: "initialized s \<and> process s = Some w \<and> liveParams (info s)"
  then have "process (setDuration (s\<lparr>paramValues := vals\<rparr>)) = Some w"
    by simp
  from printParams_Some [OF this] a
  show "parameters vals s =
      Some ((setDuration (s\<lparr>paramValues := vals\<rparr>))
              \<lparr>process := Some (w @ BeginParams # map (\<lambda>(k, v). ParamCmd k v) vals
                                  @ [EndParams])\<rparr>)"
    by (simp add: parameters_def)
qed

theorem parameters_live_witness:
  "parameters [(''duration'', VDouble 2)] liveInstance = Some liveInstance \<and>
   parameters [(''duration'', VDouble 2)] (liveInstance\<lparr>process := Some [BeginRun]\<rparr>) =
     Some (liveInstance\<lparr>paramValues := [(''duration'', VDouble 2)], durationMsec := 2000,
             repeatMsec := 0,
             process := Some [BeginRun, BeginParams, ParamCmd ''duration'' (VDouble 2), EndParams]\<rparr>)"
proof -
  let ?v = "[(''duration'', VDouble 2)]"
  let ?s = "liveInstance\<lparr>process := Some [BeginRun]\<rparr>"
  have "parameters ?v liveInstance = Some liveInstance"
    using parameters_live [where s = liveInstance and vals = ?v, THEN conjunct1]
    by (simp add: liveInstance_fields)
  moreover have "parameters ?v ?s =
      Some ((setDuration (?s\<lparr>paramValues := ?v\<rparr>))
              \<lparr>process := Some ([BeginRun] @ BeginParams # map (\<lambda>(k, v). ParamCmd k v) ?v
                                  @ [EndParams])\<rparr>)"
    using parameters_live [where s = ?s and w = "[BeginRun]" and vals = ?v, THEN conjunct2]
    by (simp add: liveInstance_fields)
  moreover have "setDuration (?s\<lparr>paramValues := ?v\<rparr>) =
      ?s\<lparr>paramValues := ?v, durationMsec := 2000, repeatMsec := 0\<rparr>"
    by (simp add: setDuration_def paramValue_def cround_def Let_def liveInstance_fields)
  ultimately show ?thesis
    by simp
qed

text \<open>The claim as stated fails: on an initialized instance with live parameters and no
  child process, the call does not replace the parameter values.\<close>

theorem parameters_without_child_counterexample:
  "initialized liveInstance \<and> liveParams (info liveInstance) \<and>
   paramValues liveInstance = [(''duration'', VDouble 1)] \<and>
   parameters [(''duration'', VDouble 2)] liveInstance = Some liveInstance"
  by (simp add: liveInstance_fields parameters_def)

subsection \<open>Starting and retriggering\<close>

lemma setDuration_nonzero: "durationMsec (setDuration s) \<noteq> 0"
  by (simp add: setDuration_def Let_def)

lemma init_nonzero: "path s \<noteq> [] \<Longrightarrow> initialized (init m ks vals s) \<and> durationMsec (init m ks vals s) \<noteq> 0"
  by (simp add: init_def setDuration_def Let_def)

lemma start_result:
  assumes "initialized s"
  shows "\<exists>s'. start t s = Some s' \<and> process s' = Some (handshake s) \<and> lastFrame s' = t \<and>
    initialized s' \<and> info s' = info s \<and> durationMsec s' = durationMsec s \<and>
    repeatMsec s' = repeatMsec s \<and> \<not> firstFrame s' \<and> \<not> readFrame s' \<and> \<not> stopped s'"
  using assms
  by (simp add: start_def Let_def stop_def pwrites_Some printParams_Some pwrite_Some handshake_def
      del: pwrites.simps)

lemma nextFrame_result:
  assumes "process s = Some w" and "durationMsec s \<noteq> 0"
  shows "\<exists>fs d. nextFrame t s =
      Some (s\<lparr>lastFrame := t, process := Some (w @ fs @ [Frame d]), firstFrame := True\<rparr>) \<and>
    set fs \<subseteq> {Frame 1}"
proof (cases "absoluteTime (info s) \<or> t \<le> lastFrame s")
  case True
  then have "\<exists>d. nextFrame t s =
      Some (s\<lparr>lastFrame := t, process := Some (w @ [] @ [Frame d]), firstFrame := True\<rparr>)"
    using assms by (auto simp: nextFrame_def Let_def pwrite_Some skipDurations_Some)
  then show ?thesis
    by (metis empty_set empty_subsetI)
next
  case False
  let ?delta = "real (unat (t - lastFrame s)) / real_of_int (durationMsec s)"
  let ?n = "nat (\<lceil>?delta\<rceil> - 1)"
  have "nextFrame t s =
      Some (s\<lparr>lastFrame := t,
             process := Some (w @ replicate ?n (Frame 1) @
               [Frame (if ?delta - real ?n < 0 then 0 else ?delta - real ?n)]),
             firstFrame := True\<rparr>)"
    using False assms by (simp add: nextFrame_def Let_def pwrite_Some skipDurations_Some)
  moreover have "set (replicate ?n (Frame 1)) \<subseteq> {Frame 1}"
    by auto
  ultimately show ?thesis
    by blast
qed







subsection \<open>The throttle of frame\<close>

lemma readColor_fields [simp]:
  "process (readColor l s) = process s"
  "firstFrame (readColor l s) = firstFrame s"
  "readFrame (readColor l s) = readFrame s"
  "initialized (readColor l s) = initialized s"
  "inputBuffer (readColor l s) = inputBuffer s"
  by (simp_all add: readColor_def Let_def)

lemma fold_readColor_fields [simp]:
  "process (fold readColor ls s) = process s"
  "firstFrame (fold readColor ls s) = firstFrame s"
  "readFrame (fold readColor ls s) = readFrame s"
  "initialized (fold readColor ls s) = initialized s"
  "inputBuffer (fold readColor ls s) = inputBuffer s"
  by (induction ls arbitrary: s) simp_all

lemma readLines_fields [simp]:
  "process (fst (readLines ls s)) = process s"
  "firstFrame (fst (readLines ls s)) = firstFrame s"
  "initialized (fst (readLines ls s)) = initialized s"
  by (induction ls arbitrary: s) (simp_all add: Let_def)

lemma readLines_readFrame:
  "readFrame (fst (readLines ls s)) = (readFrame s \<or> completesFrame (inputBuffer s \<noteq> []) ls)"
  by (induction ls arbitrary: s) (auto simp: Let_def)

lemma frame_throttled: "throttled s \<Longrightarrow> frame t s = Some s"
  by (auto simp: throttled_def frame_def)

lemma frame_establishes:
  assumes "frame t s = Some s'" "initialized s" "\<not> stopped s"
  shows "throttled s'"
proof -
  from assms obtain s1 s2 where
    s1: "(if process s = None then start t s else Some s) = Some s1"
    and s2: "(if readFrame s1 \<or> \<not> firstFrame s1 then nextFrame t s1 else Some s1) = Some s2"
    and s': "s' = s2\<lparr>readFrame := False\<rparr>"
    by (auto simp: frame_def split: Option.bind_splits)
  have i1: "initialized s1" and p1: "process s1 \<noteq> None"
    using s1 assms(2) start_result [OF assms(2), of t]
    by (auto split: if_splits)
  have "initialized s2 \<and> process s2 \<noteq> None \<and> firstFrame s2"
  proof (cases "readFrame s1 \<or> \<not> firstFrame s1")
    case True
    with s2 have n: "nextFrame t s1 = Some s2"
      by simp
    from p1 obtain w where w: "process s1 = Some w"
      by auto
    from n have "durationMsec s1 \<noteq> 0"
      by (auto simp: nextFrame_def)
    from nextFrame_result [OF w this, of t] n i1 show ?thesis
      by auto
  next
    case False
    with s2 i1 p1 show ?thesis
      by auto
  qed
  with s' show ?thesis
    by (simp add: throttled_def)
qed

lemma step_throttled:
  assumes "throttled s" "step e s = Some s'"
    "\<not> (case e of ChildOutput ls \<Rightarrow> completesFrame (inputBuffer s \<noteq> []) ls | FrameTick t \<Rightarrow> False)"
  shows "throttled s'"
proof (cases e)
  case (FrameTick t)
  with assms frame_throttled [of s t] show ?thesis
    by simp
next
  case (ChildOutput ls)
  with assms have s': "s' = fst (readLines ls s)"
    by (auto simp: readProcess_def split: option.splits)
  from assms ChildOutput show ?thesis
    unfolding s' by (simp add: throttled_def readLines_readFrame)
qed

lemma run_throttled:
  "throttled s \<Longrightarrow> run es s = Some s' \<Longrightarrow> \<not> frameRead es s \<Longrightarrow> throttled s'"
proof (induction es arbitrary: s)
  case Nil
  then show ?case by simp
next
  case (Cons e es)
  from Cons.prems(2) obtain s1 where s1: "step e s = Some s1" and r: "run es s1 = Some s'"
    by (auto split: Option.bind_splits)
  from Cons.prems(3) s1 have
    n: "\<not> (case e of ChildOutput ls \<Rightarrow> completesFrame (inputBuffer s \<noteq> []) ls | FrameTick t \<Rightarrow> False)"
    and f: "\<not> frameRead es s1"
    by auto
  from step_throttled [OF Cons.prems(1) s1 n] r f show ?case
    by (rule Cons.IH)
qed

lemma toUInt16_example: "toUInt16 ''ff00ff00'' = 0xff00ff00"
  by (simp add: toUInt16_def hexDigit_def hex_table_def)

lemma exampleRun_steps:
  "frame 1000 runningInstance = Some tickedInstance"
  "frame 1016 tickedInstance = Some tickedInstance"
  "readProcess [''begin frame'', ''argb esc ff00ff00'', ''end frame''] tickedInstance =
     Some (readInstance, [])"
  "map_option (\<lambda>s. (process s, lastFrame s)) (frame 1500 readInstance) =
     Some (Some [Frame 0, Frame (1 / 2)], 1500)"
  "process readInstance = Some [Frame 0]"
  by (simp_all add: frame_def nextFrame_def runningInstance_def newAnimScript_def emptyInfo_def
      tickedInstance_def readInstance_def pwrite_def skipDurations.simps Let_def
      readProcess_def trimmed_examples readColor_def toUInt16_example)

text \<open>C9: \<^verbatim>\<open>frame(timestamp)\<close> changes nothing on an instance that is stopped or
  not initialized. When it starts a child, writes to the child or moves the clock, then
  a frame had been read since the last call of \<^verbatim>\<open>frame\<close>, or no frame command had
  been sent to the child yet, or there was no child yet. Hence, in a run of frame ticks
  and reads of the child's output: after a call of \<^verbatim>\<open>frame\<close> on an initialized
  instance that is not stopped, a later call that advances again is preceded by a read
  that found the end of a frame block.\<close>

theorem frame_throttle:
  "(\<not> initialized s \<or> stopped s \<longrightarrow> frame t s = Some s) \<and>
   (frame t s = Some s' \<and> (process s' \<noteq> process s \<or> lastFrame s' \<noteq> lastFrame s) \<longrightarrow>
      readFrame s \<or> \<not> firstFrame s \<or> process s = None) \<and>
   (initialized s \<and> \<not> stopped s \<and> frame t s = Some s1 \<and> run es s1 = Some s2 \<and>
    frame t2 s2 = Some s3 \<and> (process s3 \<noteq> process s2 \<or> lastFrame s3 \<noteq> lastFrame s2) \<longrightarrow>
      frameRead es s1)"
proof (intro conjI impI)
  assume "\<not> initialized s \<or> stopped s"
  then show "frame t s = Some s"
    by (auto simp: frame_def)
next
  assume a: "frame t s = Some s' \<and> (process s' \<noteq> process s \<or> lastFrame s' \<noteq> lastFrame s)"
  show "readFrame s \<or> \<not> firstFrame s \<or> process s = None"
  proof (rule ccontr)
    assume "\<not> (readFrame s \<or> \<not> firstFrame s \<or> process s = None)"
    then have "frame t s = Some s \<or> frame t s = Some (s\<lparr>readFrame := False\<rparr>)"
      by (auto simp: frame_def)
    with a show False
      by auto
  qed
next
  assume a: "initialized s \<and> \<not> stopped s \<and> frame t s = Some s1 \<and> run es s1 = Some s2 \<and>
    frame t2 s2 = Some s3 \<and> (process s3 \<noteq> process s2 \<or> lastFrame s3 \<noteq> lastFrame s2)"
  then have th: "throttled s1"
    using frame_establishes by blast
  show "frameRead es s1"
  proof (rule ccontr)
    assume "\<not> frameRead es s1"
    with th a have "throttled s2"
      using run_throttled by blast
    then have "frame t2 s2 = Some s2"
      by (rule frame_throttled)
    with a show False
      by auto
  qed
qed

theorem frame_throttle_witness:
  "frame 7 (newAnimScript []) = Some (newAnimScript []) \<and>
   frame 1000 runningInstance = Some tickedInstance \<and>
   run exampleRun tickedInstance = Some readInstance \<and>
   map_option process (frame 1500 readInstance) = Some (Some [Frame 0, Frame (1 / 2)]) \<and>
   process readInstance = Some [Frame 0] \<and>
   frameRead exampleRun tickedInstance"
proof -
  have n: "\<not> initialized (newAnimScript []) \<or> stopped (newAnimScript [])"
    by (simp add: newAnimScript_def)
  have i: "initialized runningInstance \<and> \<not> stopped runningInstance"
    by (simp add: runningInstance_def newAnimScript_def)
  have r: "run exampleRun tickedInstance = Some readInstance"
    by (simp add: exampleRun_def exampleRun_steps)
  obtain s3 where s3: "frame 1500 readInstance = Some s3"
    and p3: "process s3 = Some [Frame 0, Frame (1 / 2)]"
    using exampleRun_steps(4) by auto
  have "frame 7 (newAnimScript []) = Some (newAnimScript [])"
    using frame_throttle [where s = "newAnimScript []" and t = 7, THEN conjunct1] n by simp
  moreover have "frameRead exampleRun tickedInstance"
    using frame_throttle [where s = runningInstance and t = 1000 and ?s1.0 = tickedInstance
        and es = exampleRun and ?s2.0 = readInstance and ?t2.0 = 1500 and ?s3.0 = s3,
        THEN conjunct2, THEN conjunct2]
      i r s3 p3 exampleRun_steps(1,5)
    by simp
  ultimately show ?thesis
    using r s3 p3 exampleRun_steps(1,5) by simp
qed

subsection \<open>Reading the descriptor\<close>

lemma lower_char_idem:
  "(case map_of lower_table (case map_of lower_table c of None \<Rightarrow> c | Some l \<Rightarrow> l) of
      None \<Rightarrow> (case map_of lower_table c of None \<Rightarrow> c | Some l \<Rightarrow> l) | Some l \<Rightarrow> l) =
   (case map_of lower_table c of None \<Rightarrow> c | Some l \<Rightarrow> l)"
  by (simp add: lower_table_def)

lemma toLower_idem [simp]: "toLower (toLower s) = toLower s"
  by (simp add: toLower_def lower_char_idem)

lemma toLower_names [simp]:
  "toLower ''trigger'' = ''trigger''"
  "toLower ''kptrigger'' = ''kptrigger''"
  "toLower ''duration'' = ''duration''"
  "toLower ''delay'' = ''delay''"
  "toLower ''kpdelay'' = ''kpdelay''"
  "toLower ''kprelease'' = ''kprelease''"
  "toLower ''repeat'' = ''repeat''"
  "toLower ''kprepeat'' = ''kprepeat''"
  "toLower ''stop'' = ''stop''"
  "toLower ''kpstop'' = ''kpstop''"
  by (simp_all add: toLower_def lower_table_def)


lemma readParam_cases:
  "readParam comps (i, dd) = (i, dd) \<or>
   (\<exists>p. \<not> hasParam i (pname p) \<and> toLower (pname p) = pname p \<and>
        pname p \<notin> set otherPredefined \<and>
        ((pname p = ''trigger'' \<or> pname p = ''kptrigger'') \<longrightarrow> ptype p = BOOL) \<and>
        (if pname p = ''duration''
         then \<not> absoluteTime i \<and> ptype p = DOUBLE \<and> minimum p = VDouble 0.1 \<and>
              maximum p = VDouble ONE_DAY \<and> 0.1 \<le> toDouble (defaultValue p) \<and>
              toDouble (defaultValue p) \<le> ONE_DAY \<and>
              readParam comps (i, dd) = (appendParam p i, toDouble (defaultValue p))
         else readParam comps (i, dd) = (appendParam p i, dd)))"
proof (cases "readParam comps (i, dd) = (i, dd)")
  case True
  then show ?thesis by simp
next
  case False
  let ?c = "comps @ replicate (8 - length comps) []"
  let ?ty = "paramType (toLower (?c ! 1))"
  let ?nm = "toLower (?c ! 2)"
  let ?def = "VString (urlParam (?c ! 5))"
  let ?p = "\<lparr>ptype = ?ty, pname = ?nm, pprefix = urlParam (?c ! 3), ppostfix = urlParam (?c ! 4),
    defaultValue = ?def,
    minimum = (if ?nm = ''duration'' then VDouble 0.1 else VString (urlParam (?c ! 6))),
    maximum = (if ?nm = ''duration'' then VDouble ONE_DAY else VString (urlParam (?c ! 7)))\<rparr>"
  from False have 1: "\<not> length comps < 3" "?ty \<noteq> INVALID" "\<not> hasParam i ?nm"
    "\<not> ((?nm = ''trigger'' \<or> ?nm = ''kptrigger'') \<and> ?ty \<noteq> BOOL)"
    by (auto simp: readParam_def Let_def split: if_splits)
  show ?thesis
  proof (cases "?nm = ''duration''")
    case True
    with False 1 have 2: "\<not> absoluteTime i" "?ty = DOUBLE" "\<not> toDouble ?def < 0.1"
      "\<not> toDouble ?def > ONE_DAY"
      by (auto simp: readParam_def Let_def split: if_splits)
    with True 1 have "readParam comps (i, dd) = (appendParam ?p i, toDouble ?def)"
      by (auto simp: readParam_def Let_def)
    with True 1 2 show ?thesis
      by (intro disjI2 exI [of _ ?p]) (auto simp: otherPredefined_def)
  next
    case n: False
    with False 1 have 2: "?nm \<notin> set otherPredefined"
      by (auto simp: readParam_def Let_def split: if_splits)
    with n 1 have "readParam comps (i, dd) = (appendParam ?p i, dd)"
      by (auto simp: readParam_def Let_def)
    with n 1 2 show ?thesis
      by (intro disjI2 exI [of _ ?p]) auto
  qed
qed

lemma readParam_fields [simp]:
  "absoluteTime (fst (readParam comps st)) = absoluteTime (fst st)"
  "repeat (fst (readParam comps st)) = repeat (fst st)"
  "guid (fst (readParam comps st)) = guid (fst st)"
  using readParam_cases [of comps "fst st" "snd st"]
  by (auto simp: appendParam_def split: if_splits)















lemma addTimingParams_result:
  "params (fst (addTimingParams i dd)) =
     params i
     @ (if hasParam i ''trigger'' then []
        else [timingParam BOOL ''trigger'' (VBool True) (VInt 0) (VInt 0)])
     @ (if hasParam i ''kptrigger'' then []
        else [timingParam BOOL ''kptrigger'' (VBool False) (VInt 0) (VInt 0)])
     @ [timingParam DOUBLE ''delay'' (VDouble 0) (VDouble 0) (VDouble ONE_DAY),
        timingParam DOUBLE ''kpdelay'' (VDouble 0) (VDouble 0) (VDouble ONE_DAY),
        timingParam BOOL ''kprelease'' (VBool False) (VInt 0) (VInt 3)]
     @ (if dd < 0 \<and> \<not> absoluteTime i
        then [timingParam DOUBLE ''duration'' (VDouble 1) (VDouble 0.1) (VDouble ONE_DAY)]
        else [])
     @ (if repeat i
        then [timingParam DOUBLE ''repeat'' (VDouble (if dd < 0 then 1 else dd)) (VDouble 0.1)
                (VDouble ONE_DAY),
              timingParam DOUBLE ''kprepeat'' (VDouble (if dd < 0 then 1 else dd)) (VDouble 0.1)
                (VDouble ONE_DAY),
              timingParam LONG ''stop'' (VInt (- 1)) (VInt 0) (VInt 1000),
              timingParam LONG ''kpstop'' (VInt 0) (VInt 0) (VInt 1000)]
        else [timingParam DOUBLE ''stop'' (VDouble (- 1)) (VDouble 0.1) (VDouble ONE_DAY),
              timingParam DOUBLE ''kpstop'' (VDouble (- 1)) (VDouble 0.1) (VDouble ONE_DAY)]) \<and>
   absoluteTime (fst (addTimingParams i dd)) = absoluteTime i \<and>
   repeat (fst (addTimingParams i dd)) = repeat i \<and>
   guid (fst (addTimingParams i dd)) = guid i \<and>
   snd (addTimingParams i dd) = (if dd < 0 then 1 else dd)"
proof -
  define i1 where "i1 = (if \<not> hasParam i ''trigger''
                then appendParam (timingParam BOOL ''trigger'' (VBool True) (VInt 0) (VInt 0)) i
                else i)"
  define i2 where "i2 = (if \<not> hasParam i1 ''kptrigger''
                then appendParam (timingParam BOOL ''kptrigger'' (VBool False) (VInt 0) (VInt 0)) i1
                else i1)"
  define i3 where "i3 = (if absoluteTime i2 \<or> \<not> repeat i2 then i2\<lparr>preempt := False\<rparr> else i2)"
  define i6 where "i6 = appendParam (timingParam BOOL ''kprelease'' (VBool False) (VInt 0) (VInt 3))
      (appendParam (timingParam DOUBLE ''kpdelay'' (VDouble 0) (VDouble 0) (VDouble ONE_DAY))
        (appendParam (timingParam DOUBLE ''delay'' (VDouble 0) (VDouble 0) (VDouble ONE_DAY)) i3))"
  define d where "d = (if dd < 0 then 1 else dd)"
  define i7 where "i7 = (if dd < 0 \<and> \<not> absoluteTime i6
                then appendParam
                  (timingParam DOUBLE ''duration'' (VDouble d) (VDouble 0.1) (VDouble ONE_DAY)) i6
                else i6)"
  have u: "addTimingParams i dd =
     (if repeat i7 then
        (i7\<lparr>params := params i7 @
           [timingParam DOUBLE ''repeat'' (VDouble d) (VDouble 0.1) (VDouble ONE_DAY),
            timingParam DOUBLE ''kprepeat'' (VDouble d) (VDouble 0.1) (VDouble ONE_DAY),
            timingParam LONG ''stop'' (VInt (- 1)) (VInt 0) (VInt 1000),
            timingParam LONG ''kpstop'' (VInt 0) (VInt 0) (VInt 1000)]\<rparr>, d)
      else
        (i7\<lparr>params := params i7 @
           [timingParam DOUBLE ''stop'' (VDouble (- 1)) (VDouble 0.1) (VDouble ONE_DAY),
            timingParam DOUBLE ''kpstop'' (VDouble (- 1)) (VDouble 0.1) (VDouble ONE_DAY)]\<rparr>, d))"
    unfolding addTimingParams_def Let_def i1_def i2_def i3_def i6_def d_def i7_def
    by (rule refl)
  have s1: "params i1 = params i @ (if hasParam i ''trigger'' then []
        else [timingParam BOOL ''trigger'' (VBool True) (VInt 0) (VInt 0)])"
    "absoluteTime i1 = absoluteTime i" "repeat i1 = repeat i" "guid i1 = guid i"
    "hasParam i1 ''kptrigger'' = hasParam i ''kptrigger''"
    by (simp_all add: i1_def appendParam_def hasParam_def timingParam_def)
  have s2: "params i2 = params i1 @ (if hasParam i ''kptrigger'' then []
        else [timingParam BOOL ''kptrigger'' (VBool False) (VInt 0) (VInt 0)])"
    "absoluteTime i2 = absoluteTime i" "repeat i2 = repeat i" "guid i2 = guid i"
    by (simp_all add: i2_def appendParam_def s1)
  have s3: "params i3 = params i2" "absoluteTime i3 = absoluteTime i" "repeat i3 = repeat i"
    "guid i3 = guid i"
    by (simp_all add: i3_def s2)
  have s6: "params i6 = params i3 @
      [timingParam DOUBLE ''delay'' (VDouble 0) (VDouble 0) (VDouble ONE_DAY),
       timingParam DOUBLE ''kpdelay'' (VDouble 0) (VDouble 0) (VDouble ONE_DAY),
       timingParam BOOL ''kprelease'' (VBool False) (VInt 0) (VInt 3)]"
    "absoluteTime i6 = absoluteTime i" "repeat i6 = repeat i" "guid i6 = guid i"
    by (simp_all add: i6_def appendParam_def s3)
  have s7: "params i7 = params i6 @ (if dd < 0 \<and> \<not> absoluteTime i
        then [timingParam DOUBLE ''duration'' (VDouble 1) (VDouble 0.1) (VDouble ONE_DAY)]
        else [])"
    "absoluteTime i7 = absoluteTime i" "repeat i7 = repeat i" "guid i7 = guid i"
    by (simp_all add: i7_def appendParam_def s6 d_def)
  show ?thesis
    unfolding u by (simp add: s7 s6 s3 s2 s1 d_def)
qed

lemma addTimingParams_fields [simp]:
  "absoluteTime (fst (addTimingParams i dd)) = absoluteTime i"
  "repeat (fst (addTimingParams i dd)) = repeat i"
  "guid (fst (addTimingParams i dd)) = guid i"
  "snd (addTimingParams i dd) = (if dd < 0 then 1 else dd)"
  using addTimingParams_result [of i dd] by simp_all


lemma load_new:
  "load (Finished out) (newAnimScript f) =
     (let st = readInfo out (startInfo, - 1); i1 = fst st in
        if isNull (guid i1) \<or> name i1 = [] \<or> version i1 = [] \<or> year i1 = [] \<or>
           author i1 = [] \<or> license i1 = []
        then (False, (newAnimScript f)\<lparr>info := i1\<rparr>)
        else (True, (newAnimScript f)\<lparr>info := fst (addTimingParams i1 (snd st))\<rparr>))"
proof -
  have "info (newAnimScript f) = emptyInfo"
    by (simp add: newAnimScript_def)
  then show ?thesis
    by (simp add: load_def startInfo_def)
qed





lemma timingParam_simps [simp]:
  "pname (timingParam ty nm def lo hi) = nm"
  "ptype (timingParam ty nm def lo hi) = ty"
  "defaultValue (timingParam ty nm def lo hi) = def"
  by (simp_all add: timingParam_def)


lemmas eval_defs = readInfoLine_def readParam_def Let_def trimmed_def isSpace_def urlParam_def
  QUuid_fromString_def stripBraces_def uuidShape_def hexDigit_def hex_table_def toLower_def
  lower_table_def paramType_def hasParam_def QString_toDouble_def unsignedDecimal_def
  digit_table_def ONE_DAY_def otherPredefined_def appendParam_def

lemma infoLines_read:
  "readInfo (infoLines ''{01234567-89ab-cdef-0123-456789abcdef}'' ''Wave'') (startInfo, - 1) =
     (metaInfo ''01234567-89ab-cdef-0123-456789abcdef'' ''Wave'', - 1)"
  "readInfo (infoLines ''{11111111-2222-3333-4444-555555555555}'' ''Fade'') (startInfo, - 1) =
     (metaInfo ''11111111-2222-3333-4444-555555555555'' ''Fade'', - 1)"
  "readInfo (infoLines ''{99999999-8888-7777-6666-555555555555}'' ''Pulse'') (startInfo, - 1) =
     (metaInfo ''99999999-8888-7777-6666-555555555555'' ''Pulse'', - 1)"
  by (simp_all add: infoLines_def metaInfo_def eval_defs)

lemma readInfo_append:
  "list_all (\<lambda>l. l \<noteq> []) pre \<Longrightarrow> readInfo (pre @ post) st = readInfo post (readInfo pre st)"
  by (induction pre arbitrary: st) simp_all

lemma infoLines_nonempty: "list_all (\<lambda>l. l \<noteq> []) (infoLines g n)"
  by (simp add: infoLines_def)

lemma metaInfo_fields [simp]:
  "params (metaInfo g n) = []"
  "absoluteTime (metaInfo g n) = False"
  "repeat (metaInfo g n) = True"
  "guid (metaInfo g n) = g"
  "name (metaInfo g n) = n"
  "version (metaInfo g n) = ''1.0''"
  "year (metaInfo g n) = ''2014''"
  "author (metaInfo g n) = ''MSC''"
  "license (metaInfo g n) = ''GPLv2''"
  by (simp_all add: metaInfo_def startInfo_def emptyInfo_def)

lemma sample_lines:
  "readInfoLine shortDuration (metaInfo g n, - 1) = (metaInfo g n, - 1)"
  "readInfoLine longDuration (metaInfo g n, - 1) =
     (appendParam durationParam (metaInfo g n), 5 / 2)"
  "readInfoLine timeAbsolute (metaInfo g n, - 1) = ((metaInfo g n)\<lparr>absoluteTime := True\<rparr>, - 1)"
  "readInfoLine timeAbsolute (appendParam durationParam (metaInfo g n), 5 / 2) =
     (appendParam durationParam (metaInfo g n), 5 / 2)"
  "readInfoLine longDuration ((metaInfo g n)\<lparr>absoluteTime := True\<rparr>, - 1) =
     ((metaInfo g n)\<lparr>absoluteTime := True\<rparr>, - 1)"
  by (simp_all add: shortDuration_def longDuration_def timeAbsolute_def durationParam_def
      eval_defs)

lemma sample_nonempty [simp]: "shortDuration \<noteq> []" "longDuration \<noteq> []" "timeAbsolute \<noteq> []"
  by (simp_all add: shortDuration_def longDuration_def timeAbsolute_def)

lemma sample_reads:
  "readInfo waveOutput (startInfo, - 1) =
     (metaInfo ''01234567-89ab-cdef-0123-456789abcdef'' ''Wave'', - 1)"
  "readInfo fadeOutput (startInfo, - 1) =
     (appendParam durationParam (metaInfo ''11111111-2222-3333-4444-555555555555'' ''Fade''), 5 / 2)"
  "readInfo pulseOutput (startInfo, - 1) =
     ((metaInfo ''99999999-8888-7777-6666-555555555555'' ''Pulse'')\<lparr>absoluteTime := True\<rparr>, - 1)"
  by (simp_all add: waveOutput_def fadeOutput_def pulseOutput_def readInfo_append
      infoLines_nonempty infoLines_read sample_lines)

lemma blink_read: "readInfo blinkOutput (startInfo, - 1) = (blinkMeta, - 1)"
proof -
  have "readInfo (infoLines ''{aaaaaaaa-bbbb-cccc-dddd-eeeeeeeeeeee}'' ''Blink'') (startInfo, - 1) =
     (metaInfo ''aaaaaaaa-bbbb-cccc-dddd-eeeeeeeeeeee'' ''Blink'', - 1)"
    by (simp add: infoLines_def metaInfo_def eval_defs)
  moreover have "readInfoLine repeatOff (metaInfo g n, - 1) = ((metaInfo g n)\<lparr>repeat := False\<rparr>, - 1)"
    for g n
    by (simp add: repeatOff_def eval_defs)
  moreover have "repeatOff \<noteq> []"
    by (simp add: repeatOff_def)
  ultimately show ?thesis
    by (simp add: blinkOutput_def blinkMeta_def readInfo_append infoLines_nonempty)
qed



lemma sample_loads:
  "load (Finished waveOutput) (newAnimScript f) =
     (True, (newAnimScript f)\<lparr>info := fst (addTimingParams waveMeta (- 1))\<rparr>)"
  "load (Finished fadeOutput) (newAnimScript f) =
     (True, (newAnimScript f)\<lparr>info := fst (addTimingParams fadeMeta (5 / 2))\<rparr>)"
  "load (Finished pulseOutput) (newAnimScript f) =
     (True, (newAnimScript f)\<lparr>info := fst (addTimingParams pulseMeta (- 1))\<rparr>)"
  "load (Finished blinkOutput) (newAnimScript f) =
     (True, (newAnimScript f)\<lparr>info := fst (addTimingParams blinkMeta (- 1))\<rparr>)"
  by (simp_all add: load_new sample_reads blink_read waveMeta_def fadeMeta_def pulseMeta_def
      blinkMeta_def isNull_def nullUuid_def appendParam_def)

subsection \<open>The duration parameter\<close>



subsection \<open>The timing parameters of a loaded descriptor\<close>



subsection \<open>Absolute time and the duration parameter\<close>



subsection \<open>Scanning a directory\<close>

lemma scan_loop_find:
  "scan_loop files m g =
     (case m g of
        Some sc \<Rightarrow> Some sc
      | None \<Rightarrow> map_option loaded (find (\<lambda>fp. accepted fp \<and> guid (info (loaded fp)) = g) files))"
proof (induction files arbitrary: m)
  case Nil
  show ?case
    by (simp split: option.split)
next
  case (Cons fp files)
  obtain f p where fp: "fp = (f, p)"
    by (cases fp)
  let ?g = "guid (info (loaded fp))"
  show ?case
  proof (cases "accepted fp \<and> m ?g = None")
    case True
    then have "scan_loop (fp # files) m g = scan_loop files (m(?g \<mapsto> loaded fp)) g"
      by (simp add: fp accepted_def loaded_def Let_def)
    also have "\<dots> = (case (m(?g \<mapsto> loaded fp)) g of
        Some sc \<Rightarrow> Some sc
      | None \<Rightarrow> map_option loaded (find (\<lambda>fp. accepted fp \<and> guid (info (loaded fp)) = g) files))"
      by (rule Cons.IH)
    finally show ?thesis
      using True by (cases "g = ?g") (auto split: option.split)
  next
    case False
    then have "scan_loop (fp # files) m g = scan_loop files m g"
      by (auto simp: fp accepted_def loaded_def Let_def)
    also have "\<dots> = (case m g of
        Some sc \<Rightarrow> Some sc
      | None \<Rightarrow> map_option loaded (find (\<lambda>fp. accepted fp \<and> guid (info (loaded fp)) = g) files))"
      by (rule Cons.IH)
    finally show ?thesis
      using False by (auto split: option.split)
  qed
qed

lemma accepted_iff:
  "accepted (f, p) \<longleftrightarrow>
     (\<exists>out. p = Finished out \<and>
        (let i = fst (readInfo out (startInfo, - 1)) in
           \<not> isNull (guid i) \<and> name i \<noteq> [] \<and> version i \<noteq> [] \<and> year i \<noteq> [] \<and>
           author i \<noteq> [] \<and> license i \<noteq> []))"
proof (cases p)
  case Running
  then show ?thesis
    by (simp add: accepted_def load_def)
next
  case (Finished out)
  then show ?thesis
    by (simp add: accepted_def load_new Let_def)
qed

lemma loaded_guid:
  "accepted (f, Finished out) \<Longrightarrow>
   guid (info (loaded (f, Finished out))) = guid (fst (readInfo out (startInfo, - 1)))"
  by (simp add: accepted_def loaded_def load_new Let_def split: if_splits)

lemma broken_read:
  "license (fst (readInfo (take 5 (infoLines ''{77777777-0000-0000-0000-000000000000}'' ''Broken''))
     (startInfo, - 1))) = []"
  by (simp add: infoLines_def eval_defs startInfo_def emptyInfo_def)

lemma example_accepted:
  "accepted (f, Running) = False"
  "accepted (f, Finished waveOutput) = True"
  "accepted (f, Finished fadeOutput) = True"
  "accepted (f, Finished (take 5 (infoLines ''{77777777-0000-0000-0000-000000000000}'' ''Broken'')))
     = False"
proof -
  show "accepted (f, Running) = False"
    by (simp add: accepted_def load_def)
  show "accepted (f, Finished waveOutput) = True"
    by (simp add: accepted_def sample_loads)
  show "accepted (f, Finished fadeOutput) = True"
    by (simp add: accepted_def sample_loads)
  show "accepted (f, Finished (take 5 (infoLines ''{77777777-0000-0000-0000-000000000000}''
      ''Broken''))) = False"
    by (simp add: accepted_def load_new broken_read Let_def)
qed

lemma example_guids:
  "guid (info (loaded (f, Finished waveOutput))) = ''01234567-89ab-cdef-0123-456789abcdef''"
  "guid (info (loaded (f, Finished fadeOutput))) = ''11111111-2222-3333-4444-555555555555''"
  by (simp_all add: loaded_def sample_loads waveMeta_def fadeMeta_def appendParam_def)

text \<open>C4: a candidate is accepted by \<^verbatim>\<open>load\<close> exactly when its info run has
  ended within the timeout and the output read from it gives an identifier that is not
  null and a name, version, year, author and license that are not empty; the identifier
  of the loaded object is the one read. After a scan, the catalogue holds under an
  identifier the object loaded from the first accepted candidate of the directory with
  that identifier, and nothing else: its keys are the identifiers of the accepted
  candidates. So when the accepted candidates have distinct identifiers, the catalogue
  has as many entries as there are accepted candidates.\<close>

theorem scan_first_seen:
  "(accepted (f, p) \<longleftrightarrow>
      (\<exists>out. p = Finished out \<and>
         (let i = fst (readInfo out (startInfo, - 1)) in
            \<not> isNull (guid i) \<and> name i \<noteq> [] \<and> version i \<noteq> [] \<and> year i \<noteq> [] \<and>
            author i \<noteq> [] \<and> license i \<noteq> []))) \<and>
   (accepted (f, Finished out) \<longrightarrow>
      guid (info (loaded (f, Finished out))) = guid (fst (readInfo out (startInfo, - 1)))) \<and>
   scan files g =
     map_option loaded (find (\<lambda>fp. accepted fp \<and> guid (info (loaded fp)) = g) files) \<and>
   dom (scan files) = set (map (\<lambda>fp. guid (info (loaded fp))) (filter accepted files)) \<and>
   (distinct (map (\<lambda>fp. guid (info (loaded fp))) (filter accepted files)) \<longrightarrow>
      card (dom (scan files)) = length (filter accepted files))"
proof -
  have sc: "scan files g =
      map_option loaded (find (\<lambda>fp. accepted fp \<and> guid (info (loaded fp)) = g) files)" for g
    by (simp add: scan_def scan_loop_find)
  have d: "dom (scan files) = (\<lambda>fp. guid (info (loaded fp))) ` {fp \<in> set files. accepted fp}"
  proof (rule set_eqI)
    fix g
    have "g \<in> dom (scan files) \<longleftrightarrow>
        find (\<lambda>fp. accepted fp \<and> guid (info (loaded fp)) = g) files \<noteq> None"
      by (simp add: sc dom_def)
    also have "\<dots> \<longleftrightarrow> (\<exists>fp\<in>set files. accepted fp \<and> guid (info (loaded fp)) = g)"
      by (auto simp: find_None_iff)
    also have "\<dots> \<longleftrightarrow> g \<in> (\<lambda>fp. guid (info (loaded fp))) ` {fp \<in> set files. accepted fp}"
      by auto
    finally show "g \<in> dom (scan files) \<longleftrightarrow>
        g \<in> (\<lambda>fp. guid (info (loaded fp))) ` {fp \<in> set files. accepted fp}" .
  qed
  have d': "dom (scan files) = set (map (\<lambda>fp. guid (info (loaded fp))) (filter accepted files))"
    by (simp add: d)
  have c: "card (dom (scan files)) = length (filter accepted files)"
    if "distinct (map (\<lambda>fp. guid (info (loaded fp))) (filter accepted files))"
    using distinct_card [OF that] by (simp add: d')
  show ?thesis
    using accepted_iff [of f p] loaded_guid [of f out] sc [of g] d' c by blast
qed

theorem scan_first_seen_witness:
  "scan (exampleDir @ [(''/ckb-animations/wave-copy'', Finished waveOutput)])
     ''01234567-89ab-cdef-0123-456789abcdef'' =
     Some (loaded (''/ckb-animations/wave'', Finished waveOutput)) \<and>
   dom (scan (exampleDir @ [(''/ckb-animations/wave-copy'', Finished waveOutput)])) =
     {''01234567-89ab-cdef-0123-456789abcdef'', ''11111111-2222-3333-4444-555555555555''} \<and>
   length (filter accepted exampleDir) = 2 \<and>
   card (dom (scan exampleDir)) = 2"
proof -
  let ?copy = "(''/ckb-animations/wave-copy'', Finished waveOutput)"
  have d: "distinct (map (\<lambda>fp. guid (info (loaded fp))) (filter accepted exampleDir))"
    by (simp add: exampleDir_def example_accepted example_guids)
  have n: "length (filter accepted exampleDir) = 2"
    by (simp add: exampleDir_def example_accepted)
  note w = scan_first_seen [where files = "exampleDir @ [?copy]"
      and g = "''01234567-89ab-cdef-0123-456789abcdef''"]
  have "scan (exampleDir @ [?copy]) ''01234567-89ab-cdef-0123-456789abcdef'' =
      Some (loaded (''/ckb-animations/wave'', Finished waveOutput))"
    using w [THEN conjunct2, THEN conjunct2, THEN conjunct1]
    by (simp add: exampleDir_def example_accepted example_guids)
  moreover have "dom (scan (exampleDir @ [?copy])) =
      {''01234567-89ab-cdef-0123-456789abcdef'', ''11111111-2222-3333-4444-555555555555''}"
    using w [THEN conjunct2, THEN conjunct2, THEN conjunct2, THEN conjunct1]
    by (simp add: exampleDir_def example_accepted example_guids insert_commute)
  moreover have "card (dom (scan exampleDir)) = 2"
    using scan_first_seen [where files = exampleDir, THEN conjunct2, THEN conjunct2,
        THEN conjunct2, THEN conjunct2] d n
    by simp
  ultimately show ?thesis
    using n by simp
qed

subsection \<open>Listing the catalogue\<close>

lemma appendGuid_named:
  "appendGuid (namedScript ''aaaaaaaa-0000-0000-0000-000000000001'' n) =
     namedScript ''aaaaaaaa-0000-0000-0000-000000000001''
       (n @ '' {AAAAAAAA-0000-0000-0000-000000000001}'')"
  "appendGuid (namedScript ''bbbbbbbb-0000-0000-0000-000000000002'' n) =
     namedScript ''bbbbbbbb-0000-0000-0000-000000000002''
       (n @ '' {BBBBBBBB-0000-0000-0000-000000000002}'')"
  "appendGuid (namedScript ''cccccccc-0000-0000-0000-000000000003'' n) =
     namedScript ''cccccccc-0000-0000-0000-000000000003''
       (n @ '' {CCCCCCCC-0000-0000-0000-000000000003}'')"
  by (simp_all add: appendGuid_def namedScript_def metaInfo_def QUuid_toString_def toUpper_def
      upper_table_def)

lemma namedScript_name [simp]: "name (info (namedScript g n)) = n"
  by (simp add: namedScript_def)

lemma triple_names:
  "listed_names [0, 1, 2] tripleStore =
     [''Wave {AAAAAAAA-0000-0000-0000-000000000001} {AAAAAAAA-0000-0000-0000-000000000001}'',
      ''Wave {BBBBBBBB-0000-0000-0000-000000000002}'',
      ''Wave {CCCCCCCC-0000-0000-0000-000000000003}'']"
  by (simp add: listed_names_def list_scripts_def tripleStore_def appendGuid_named Let_def)

lemma mixed_names:
  "listed_names [0, 1, 2] mixedStore =
     [''Wave {AAAAAAAA-0000-0000-0000-000000000001}'', ''Wave 2'',
      ''Wave {BBBBBBBB-0000-0000-0000-000000000002}'']"
  by (simp add: listed_names_def list_scripts_def mixedStore_def appendGuid_named Let_def)

lemma mixed_orders:
  "listed_names [0, 2, 1] mixedStore =
     [''Wave {AAAAAAAA-0000-0000-0000-000000000001}'', ''Wave 2'',
      ''Wave {BBBBBBBB-0000-0000-0000-000000000002}'']"
  "listed_names [1, 0, 2] mixedStore =
     [''Wave {BBBBBBBB-0000-0000-0000-000000000002}'', ''Wave 2'',
      ''Wave {AAAAAAAA-0000-0000-0000-000000000001}'']"
  "listed_names [1, 2, 0] mixedStore =
     [''Wave {BBBBBBBB-0000-0000-0000-000000000002}'', ''Wave 2'',
      ''Wave {AAAAAAAA-0000-0000-0000-000000000001}'']"
  "listed_names [2, 0, 1] mixedStore =
     [''Wave {AAAAAAAA-0000-0000-0000-000000000001}'', ''Wave 2'',
      ''Wave {BBBBBBBB-0000-0000-0000-000000000002}'']"
  "listed_names [2, 1, 0] mixedStore =
     [''Wave {BBBBBBBB-0000-0000-0000-000000000002}'', ''Wave 2'',
      ''Wave {AAAAAAAA-0000-0000-0000-000000000001}'']"
  by (simp_all add: listed_names_def list_scripts_def mixedStore_def appendGuid_named Let_def)

lemma triple_orders:
  "listed_names [0, 2, 1] tripleStore =
     [''Wave {AAAAAAAA-0000-0000-0000-000000000001} {AAAAAAAA-0000-0000-0000-000000000001}'',
      ''Wave {BBBBBBBB-0000-0000-0000-000000000002}'',
      ''Wave {CCCCCCCC-0000-0000-0000-000000000003}'']"
  "listed_names [1, 0, 2] tripleStore =
     [''Wave {BBBBBBBB-0000-0000-0000-000000000002} {BBBBBBBB-0000-0000-0000-000000000002}'',
      ''Wave {AAAAAAAA-0000-0000-0000-000000000001}'',
      ''Wave {CCCCCCCC-0000-0000-0000-000000000003}'']"
  "listed_names [1, 2, 0] tripleStore =
     [''Wave {BBBBBBBB-0000-0000-0000-000000000002} {BBBBBBBB-0000-0000-0000-000000000002}'',
      ''Wave {AAAAAAAA-0000-0000-0000-000000000001}'',
      ''Wave {CCCCCCCC-0000-0000-0000-000000000003}'']"
  "listed_names [2, 0, 1] tripleStore =
     [''Wave {CCCCCCCC-0000-0000-0000-000000000003} {CCCCCCCC-0000-0000-0000-000000000003}'',
      ''Wave {AAAAAAAA-0000-0000-0000-000000000001}'',
      ''Wave {BBBBBBBB-0000-0000-0000-000000000002}'']"
  "listed_names [2, 1, 0] tripleStore =
     [''Wave {CCCCCCCC-0000-0000-0000-000000000003} {CCCCCCCC-0000-0000-0000-000000000003}'',
      ''Wave {AAAAAAAA-0000-0000-0000-000000000001}'',
      ''Wave {BBBBBBBB-0000-0000-0000-000000000002}'']"
  by (simp_all add: listed_names_def list_scripts_def tripleStore_def appendGuid_named Let_def)

text \<open>C5: \<^verbatim>\<open>list\<close> means to give every object of a group with the same name that
  name followed by its identifier in upper case, and to return the objects in the order of
  their names. It does not: the first object of a group stays in \<^verbatim>\<open>result\<close> under
  its old name, so every further object of the group appends the identifier of the first
  one once more, and the returned list is ordered by the old name of the first object.
  With three objects called Wave, in every order of the pointers the object visited first
  ends with its identifier twice, so a listed name is not one of the expected names. With
  two objects called Wave and one called Wave 2, in every order of the pointers the
  returned names are not sorted.\<close>

theorem list_duplicate_names:
  "listed_names [0, 1, 2] tripleStore =
     [''Wave {AAAAAAAA-0000-0000-0000-000000000001} {AAAAAAAA-0000-0000-0000-000000000001}'',
      ''Wave {BBBBBBBB-0000-0000-0000-000000000002}'',
      ''Wave {CCCCCCCC-0000-0000-0000-000000000003}''] \<and>
   list_all (\<lambda>order. \<not> list_all (\<lambda>n. n \<in> set expectedNames) (listed_names order tripleStore))
     orders3 \<and>
   listed_names [0, 1, 2] mixedStore =
     [''Wave {AAAAAAAA-0000-0000-0000-000000000001}'', ''Wave 2'',
      ''Wave {BBBBBBBB-0000-0000-0000-000000000002}''] \<and>
   list_all (\<lambda>order. \<not> sorted (listed_names order mixedStore)) orders3"
proof -
  have "\<not> sorted (listed_names [0, 1, 2] mixedStore)"
    by (subst mixed_names) simp
  moreover have "\<not> sorted (listed_names [0, 2, 1] mixedStore)"
    by (subst mixed_orders) simp
  moreover have "\<not> sorted (listed_names [1, 0, 2] mixedStore)"
    by (subst mixed_orders) simp
  moreover have "\<not> sorted (listed_names [1, 2, 0] mixedStore)"
    by (subst mixed_orders) simp
  moreover have "\<not> sorted (listed_names [2, 0, 1] mixedStore)"
    by (subst mixed_orders) simp
  moreover have "\<not> sorted (listed_names [2, 1, 0] mixedStore)"
    by (subst mixed_orders) simp
  moreover have "\<not> list_all (\<lambda>n. n \<in> set expectedNames) (listed_names [0, 1, 2] tripleStore)"
    by (subst triple_names) (simp add: expectedNames_def)
  moreover have "\<not> list_all (\<lambda>n. n \<in> set expectedNames) (listed_names [0, 2, 1] tripleStore)"
    by (subst triple_orders) (simp add: expectedNames_def)
  moreover have "\<not> list_all (\<lambda>n. n \<in> set expectedNames) (listed_names [1, 0, 2] tripleStore)"
    by (subst triple_orders) (simp add: expectedNames_def)
  moreover have "\<not> list_all (\<lambda>n. n \<in> set expectedNames) (listed_names [1, 2, 0] tripleStore)"
    by (subst triple_orders) (simp add: expectedNames_def)
  moreover have "\<not> list_all (\<lambda>n. n \<in> set expectedNames) (listed_names [2, 0, 1] tripleStore)"
    by (subst triple_orders) (simp add: expectedNames_def)
  moreover have "\<not> list_all (\<lambda>n. n \<in> set expectedNames) (listed_names [2, 1, 0] tripleStore)"
    by (subst triple_orders) (simp add: expectedNames_def)
  ultimately show ?thesis
    using triple_names mixed_names by (simp add: orders3_def)
qed

end
